theory Spec2Isabelle
  imports Main "HOL-Library.Multiset"
begin

section \<open>The wallet provider of src/components/wallet-provider.tsx\<close>

text \<open>
  The component keeps five pieces of React state, three refs that carry values, two
  entries of \<^verbatim>\<open>localStorage\<close>, and talks to the browser wallet
  \<^verbatim>\<open>window.ethereum\<close>. The embedding passes all of it explicitly in one record
  \<open>world\<close>. Everything the component does to its surroundings (a request to the
  wallet, a toast, an awaited delay) is appended to a time-stamped trace, and every
  \<^verbatim>\<open>setTimeout\<close> callback is kept in a list of pending timers.
  Each handler is run to completion as one step; interleavings of two handlers at their
  \<^verbatim>\<open>await\<close> points are outside the model. The answers of the wallet are typed as the
  component expects them (a list of account strings, a chain-id string, a transaction
  hash); malformed answers are outside the model too.
\<close>

subsection \<open>Static configuration\<close>

record native_currency =
  name :: string
  symbol :: string
  decimals :: nat

record network_config =
  chainId :: nat
  chainIdHex :: string
  chainName :: string
  nativeCurrency :: native_currency
  rpcUrls :: "string list"
  blockExplorerUrls :: "string list"

definition OG_NETWORK_CONFIG :: network_config where
  "OG_NETWORK_CONFIG =
     \<lparr> chainId = 16601,
       chainIdHex = ''0x40D9'',
       chainName = ''0G-Galileo-Testnet'',
       nativeCurrency = \<lparr> name = ''OG'', symbol = ''OG'', decimals = 18 \<rparr>,
       rpcUrls = [''https://evmrpc-testnet.0g.ai''],
       blockExplorerUrls = [''https://chainscan-galileo.0g.ai''] \<rparr>"

subsection \<open>The host wallet\<close>

text \<open>
  A rejected request throws a value whose \<^verbatim>\<open>code\<close> and \<^verbatim>\<open>message\<close> the component
  reads; either may be missing (\<open>None\<close>).
\<close>

record rpc_error =
  code :: "int option"
  message :: "string option"

text \<open>
  \<^verbatim>\<open>accounts[0]\<close> of an empty array is \<^verbatim>\<open>undefined\<close>; a JavaScript value that is a string
  or \<^verbatim>\<open>undefined\<close> is a \<open>string option\<close>, with \<open>None\<close> for \<^verbatim>\<open>undefined\<close>.
\<close>

record tx_params =
  tx_from :: "string option"
  tx_to :: string
  tx_value :: string
  tx_data :: string

datatype request =
    EthAccounts
  | EthRequestAccounts
  | EthChainId
  | EthGetBalance "string option"
  | WalletSwitchEthereumChain string
  | WalletAddEthereumChain network_config
  | EthSendTransaction tx_params

datatype reply =
    Threw rpc_error
  | Accounts "string list"
  | Text string
  | Void

text \<open>
  The wallet is an arbitrary function of the number of requests it has answered so far
  and of the request: any sequence of answers is some \<open>provider\<close>. Its methods are
  typed as the component uses them.
\<close>

record provider =
  eth_accounts :: "nat \<Rightarrow> rpc_error + string list"
  eth_requestAccounts :: "nat \<Rightarrow> rpc_error + string list"
  eth_chainId :: "nat \<Rightarrow> rpc_error + string"
  eth_getBalance :: "nat \<Rightarrow> string option \<Rightarrow> rpc_error + string"
  wallet_switchEthereumChain :: "nat \<Rightarrow> string \<Rightarrow> rpc_error + unit"
  wallet_addEthereumChain :: "nat \<Rightarrow> network_config \<Rightarrow> rpc_error + unit"
  eth_sendTransaction :: "nat \<Rightarrow> tx_params \<Rightarrow> rpc_error + string"

subsection \<open>Session state, refs, storage and effects\<close>

text \<open>
  \<^verbatim>\<open>getBalance\<close> stores \<^verbatim>\<open>(Number.parseInt(balance, 16) / Math.pow(10, 18)).toFixed(4)\<close>.
  No property below depends on the digits of that floating-point quotient, so the stored
  text is kept symbolically: \<open>BalanceInOG h\<close> is the formatted balance computed from
  the wallet's answer \<open>h\<close>, and \<open>Literal s\<close> is the string \<open>s\<close> itself.
\<close>

datatype balance_text = Literal string | BalanceInOG string

record session =
  isConnected :: bool
  address :: "string option"
  balance :: balance_text
  isCorrectNetwork :: bool
  isLoading :: bool

text \<open>The toasts of the component, one constructor for each title.\<close>

datatype toast =
    MetaMaskNotFound
  | ConnectionRejected
  | ConnectionFailed string
  | WalletConnected
  | WalletDisconnected
  | NetworkChanged
  | NetworkConnected
  | NetworkAdded
  | NetworkSwitched
  | NetworkSwitchFailed

datatype task = CheckNetwork nat | ResetNetworkWarning

datatype effect =
    Request request reply
  | Sleep nat
  | Toast toast

record world =
  sess :: session
  hasShownNetworkWarning :: bool
  isInitialized :: bool
  networkCheckAttempts :: nat
  localStorage :: "string \<rightharpoonup> string"
  now :: nat
  timers :: "(nat \<times> task) list"
  hostCalls :: nat
  trace :: "(nat \<times> effect) list"

definition initial_session :: session where
  "initial_session =
     \<lparr> isConnected = False, address = Some [], balance = Literal ''0'',
       isCorrectNetwork = False, isLoading = False \<rparr>"

definition initial_world :: world where
  "initial_world =
     \<lparr> sess = initial_session, hasShownNetworkWarning = False, isInitialized = False,
       networkCheckAttempts = 0, localStorage = Map.empty, now = 0, timers = [],
       hostCalls = 0, trace = [] \<rparr>"

text \<open>The state setters of React, and the primitive effects.\<close>

definition setIsConnected :: "bool \<Rightarrow> world \<Rightarrow> world" where
  "setIsConnected b w = w\<lparr>sess := (sess w)\<lparr>isConnected := b\<rparr>\<rparr>"

definition setAddress :: "string option \<Rightarrow> world \<Rightarrow> world" where
  "setAddress a w = w\<lparr>sess := (sess w)\<lparr>address := a\<rparr>\<rparr>"

definition setBalance :: "balance_text \<Rightarrow> world \<Rightarrow> world" where
  "setBalance b w = w\<lparr>sess := (sess w)\<lparr>balance := b\<rparr>\<rparr>"

definition setIsCorrectNetwork :: "bool \<Rightarrow> world \<Rightarrow> world" where
  "setIsCorrectNetwork b w = w\<lparr>sess := (sess w)\<lparr>isCorrectNetwork := b\<rparr>\<rparr>"

definition setIsLoading :: "bool \<Rightarrow> world \<Rightarrow> world" where
  "setIsLoading b w = w\<lparr>sess := (sess w)\<lparr>isLoading := b\<rparr>\<rparr>"

definition setItem :: "string \<Rightarrow> string \<Rightarrow> world \<Rightarrow> world" where
  "setItem k v w = w\<lparr>localStorage := (localStorage w)(k \<mapsto> v)\<rparr>"

definition removeItem :: "string \<Rightarrow> world \<Rightarrow> world" where
  "removeItem k w = w\<lparr>localStorage := (localStorage w)(k := None)\<rparr>"

definition emit :: "effect \<Rightarrow> world \<Rightarrow> world" where
  "emit e w = w\<lparr>trace := trace w @ [(now w, e)]\<rparr>"

definition showToast :: "toast \<Rightarrow> world \<Rightarrow> world" where
  "showToast t w = emit (Toast t) w"

definition logRequest :: "request \<Rightarrow> reply \<Rightarrow> world \<Rightarrow> world" where
  "logRequest r a w = (emit (Request r a) w)\<lparr>hostCalls := hostCalls w + 1\<rparr>"

text \<open>\<^verbatim>\<open>await new Promise((resolve) => setTimeout(resolve, d))\<close>\<close>

definition sleep :: "nat \<Rightarrow> world \<Rightarrow> world" where
  "sleep d w = (emit (Sleep d) w)\<lparr>now := now w + d\<rparr>"

text \<open>\<^verbatim>\<open>setTimeout(callback, d)\<close>: the callback is due \<open>d\<close> ms from now.\<close>

definition setTimeout :: "task \<Rightarrow> nat \<Rightarrow> world \<Rightarrow> world" where
  "setTimeout t d w = w\<lparr>timers := timers w @ [(now w + d, t)]\<rparr>"

text \<open>String conversion of a value that is a string or \<^verbatim>\<open>undefined\<close>.\<close>

definition toStr :: "string option \<Rightarrow> string" where
  "toStr v = (case v of None \<Rightarrow> ''undefined'' | Some s \<Rightarrow> s)"

text \<open>\<^verbatim>\<open>accounts[0]\<close>\<close>

definition first_account :: "string list \<Rightarrow> string option" where
  "first_account accounts = (case accounts of [] \<Rightarrow> None | a # _ \<Rightarrow> Some a)"

subsection \<open>disconnectWallet\<close>

definition disconnectWallet :: "world \<Rightarrow> world" where
  "disconnectWallet w =
     showToast WalletDisconnected
       (removeItem ''walletAddress''
         (removeItem ''walletConnected''
           (setIsCorrectNetwork False
             (setBalance (Literal ''0'')
               (setAddress (Some [])
                 (setIsConnected False w))))))"

subsection \<open>JavaScript numbers, as far as \<^verbatim>\<open>sendTransaction\<close> uses them\<close>

text \<open>
  \<^verbatim>\<open>Number.parseInt(value)\<close> yields a double that is \<^verbatim>\<open>NaN\<close>, an infinity or integral, so a
  number is modelled by its sign (\<open>True\<close> for negative) and its magnitude, a natural
  number that a double represents exactly. \<open>toFloat64\<close> is the conversion of a
  mathematical integer to the nearest double, ties to even (53 significant bits, overflow
  to infinity from \<open>2 ^ 1024\<close>), in integer arithmetic. ECMAScript lets an
  implementation approximate a decimal numeral beyond its 20th significant digit; the
  model rounds the exact value, as V8 does.

  \<^verbatim>\<open>parseInt\<close> reads its argument one UTF-16 code unit at a time, so the value argument
  of \<open>sendTransaction\<close> is a list of code units. A number that is no code unit
  (65536 or more) is neither white space nor a digit and is read as any other character.
  \<open>codeUnits\<close> gives the code units of a \<open>string\<close>, whose characters are the code
  units below 256.
\<close>

type_synonym js_string = "nat list"

definition codeUnits :: "string \<Rightarrow> js_string" where
  "codeUnits s = map of_char s"

datatype js_number = NaN | Infinity bool | Integer bool nat

fun bits :: "nat \<Rightarrow> nat" where
  "bits n = (if n = 0 then 0 else Suc (bits (n div 2)))"

declare bits.simps [simp del]

definition toFloat64 :: "bool \<Rightarrow> nat \<Rightarrow> js_number" where
  "toFloat64 neg n =
     (if bits n \<le> 53 then Integer neg n
      else
        let e = bits n - 53;
            q = n div 2 ^ e;
            r = n mod 2 ^ e;
            half = 2 ^ (e - 1);
            q' = (if half < r \<or> (r = half \<and> odd q) then q + 1 else q);
            m = q' * 2 ^ e
        in if 2 ^ 1024 \<le> m then Infinity neg else Integer neg m)"

text \<open>
  The white space and line terminators that \<^verbatim>\<open>parseInt\<close> skips (ECMAScript,
  StrWhiteSpaceChar): TAB, LF, VT, FF, CR, SP, NBSP (U+00A0), the other space separators
  of Unicode (U+1680, U+2000 to U+200A, U+202F, U+205F, U+3000), the line and paragraph
  separators (U+2028, U+2029) and the byte order mark (U+FEFF).
\<close>

definition isWhiteSpace :: "nat \<Rightarrow> bool" where
  "isWhiteSpace c =
     (c \<in> set [0x09, 0x0A, 0x0B, 0x0C, 0x0D, 0x20, 0xA0, 0x1680, 0x2028, 0x2029, 0x202F,
               0x205F, 0x3000, 0xFEFF]
      \<or> (0x2000 \<le> c \<and> c \<le> 0x200A))"

text \<open>The value of a digit: 0 to 9, a to z and A to Z.\<close>

definition digitVal :: "nat \<Rightarrow> nat option" where
  "digitVal c =
     (if 48 \<le> c \<and> c \<le> 57 then Some (c - 48)
      else if 97 \<le> c \<and> c \<le> 122 then Some (c - 87)
      else if 65 \<le> c \<and> c \<le> 90 then Some (c - 55)
      else None)"

definition isRadixDigit :: "nat \<Rightarrow> nat \<Rightarrow> bool" where
  "isRadixDigit R c = (case digitVal c of None \<Rightarrow> False | Some d \<Rightarrow> d < R)"

definition mathInt :: "nat \<Rightarrow> js_string \<Rightarrow> nat" where
  "mathInt R Z = foldl (\<lambda>acc c. case digitVal c of None \<Rightarrow> acc | Some d \<Rightarrow> acc * R + d) 0 Z"

text \<open>\<^verbatim>\<open>Number.parseInt(string)\<close> with no radix argument (ECMAScript, parseInt).\<close>

definition parseInt :: "js_string \<Rightarrow> js_number" where
  "parseInt inputString =
     (let S = dropWhile isWhiteSpace inputString;
          neg = (S \<noteq> [] \<and> hd S = of_char (CHR ''-''));
          S1 = (if S \<noteq> [] \<and> (hd S = of_char (CHR ''+'') \<or> hd S = of_char (CHR ''-''))
                then tl S else S);
          hex = (2 \<le> length S1
                 \<and> (take 2 S1 = codeUnits ''0x'' \<or> take 2 S1 = codeUnits ''0X''));
          R = (if hex then 16 else 10);
          S2 = (if hex then drop 2 S1 else S1);
          Z = takeWhile (isRadixDigit R) S2
      in if Z = [] then NaN else toFloat64 neg (mathInt R Z))"

definition hexDigit :: "nat \<Rightarrow> char" where
  "hexDigit d = ''0123456789abcdef'' ! d"

fun toHex :: "nat \<Rightarrow> string" where
  "toHex n = (if n < 16 then [hexDigit n] else toHex (n div 16) @ [hexDigit (n mod 16)])"

declare toHex.simps [simp del]

text \<open>
  \<^verbatim>\<open>Number.prototype.toString(16)\<close> on such a number: for an integral double, the digits
  of its exact value. The properties below apply it to a magnitude of 2^53 or more only
  at 2^53, at 10^18 and at 1234567890123456768, whose exact numerals end in zeros in
  every position that lies below the precision of the double.
\<close>

definition toString16 :: "js_number \<Rightarrow> string" where
  "toString16 x =
     (case x of
        NaN \<Rightarrow> ''NaN''
      | Infinity neg \<Rightarrow> (if neg then ''-Infinity'' else ''Infinity'')
      | Integer neg n \<Rightarrow> (if n = 0 then ''0'' else (if neg then ''-'' else []) @ toHex n))"

subsection \<open>sendTransaction\<close>

text \<open>
  A rejected promise carries either a fresh \<^verbatim>\<open>new Error(message)\<close> or the wallet's own
  error, thrown again unchanged.
\<close>

datatype thrown = JsError string | Rethrown rpc_error

definition NotConnectedError :: thrown where
  "NotConnectedError = JsError ''Wallet not connected''"

definition WrongNetworkError :: thrown where
  "WrongNetworkError = JsError ''Please switch to 0G Network''"

text \<open>\<^verbatim>\<open>s || d\<close> on a value that is a string or \<^verbatim>\<open>undefined\<close>: the empty string is falsy.\<close>

definition orElse :: "string option \<Rightarrow> string \<Rightarrow> string" where
  "orElse s d = (case s of None \<Rightarrow> d | Some x \<Rightarrow> if x = [] then d else x)"

text \<open>
  The function reads \<^verbatim>\<open>isConnected\<close>, \<^verbatim>\<open>isCorrectNetwork\<close> and \<^verbatim>\<open>address\<close> of the render
  that handed it out, here the session of the world it is called in.
\<close>

definition sendTransaction ::
  "provider \<Rightarrow> string \<Rightarrow> js_string \<Rightarrow> string option \<Rightarrow> world \<Rightarrow> (thrown + string) \<times> world" where
  "sendTransaction eth to v d w =
     (if \<not> isConnected (sess w) then (Inl (JsError ''Wallet not connected''), w)
      else if \<not> isCorrectNetwork (sess w) then (Inl (JsError ''Please switch to 0G Network''), w)
      else
        let p = \<lparr> tx_from = address (sess w), tx_to = to,
                  tx_value = ''0x'' @ toString16 (parseInt v),
                  tx_data = orElse d ''0x'' \<rparr>
        in case eth_sendTransaction eth (hostCalls w) p of
             Inr txHash \<Rightarrow> (Inr txHash, logRequest (EthSendTransaction p) (Text txHash) w)
           | Inl e \<Rightarrow>
               (Inl (JsError (orElse (message e) ''Transaction failed'')),
                logRequest (EthSendTransaction p) (Threw e) w))"

subsection \<open>getBalance and checkNetworkWithRetry\<close>

definition getBalance :: "provider \<Rightarrow> string option \<Rightarrow> world \<Rightarrow> world" where
  "getBalance eth a w =
     (case eth_getBalance eth (hostCalls w) a of
        Inr b \<Rightarrow> setBalance (BalanceInOG b) (logRequest (EthGetBalance a) (Text b) w)
      | Inl e \<Rightarrow> logRequest (EthGetBalance a) (Threw e) w)"

text \<open>
  One pass through the body of the \<^verbatim>\<open>for\<close> loop of \<^verbatim>\<open>checkNetworkWithRetry\<close>, at index
  \<open>i\<close>: the state it leaves, and whether it ended in \<^verbatim>\<open>break\<close>. The states between
  two passes are the ones a render can see while the loop is suspended. The test
  \<^verbatim>\<open>i === maxRetries - 1\<close> is written \<open>i + 1 = maxRetries\<close>, since subtraction on
  \<open>nat\<close> stops at 0.
\<close>

definition checkNetworkAttempt :: "provider \<Rightarrow> nat \<Rightarrow> nat \<Rightarrow> world \<Rightarrow> bool \<times> world" where
  "checkNetworkAttempt eth maxRetries i w =
     (let w1 = (if 0 < i then sleep 1500 w else w)
      in case eth_chainId eth (hostCalls w1) of
           Inr cid \<Rightarrow>
             let isCorrect = (cid = chainIdHex OG_NETWORK_CONFIG);
                 w2 = logRequest EthChainId (Text cid) w1;
                 w3 = setIsCorrectNetwork isCorrect w2;
                 w4 = w3\<lparr>networkCheckAttempts := i + 1\<rparr>
             in (isCorrect, w4)
         | Inl e \<Rightarrow>
             let w2 = logRequest EthChainId (Threw e) w1;
                 w3 = (if i + 1 = maxRetries then setIsCorrectNetwork False w2 else w2)
             in (False, w3))"

text \<open>The loop from index \<open>i\<close>: it stops at a \<^verbatim>\<open>break\<close> or when \<open>i\<close> reaches \<open>maxRetries\<close>.\<close>

function checkNetworkLoop :: "provider \<Rightarrow> nat \<Rightarrow> nat \<Rightarrow> world \<Rightarrow> world" where
  "checkNetworkLoop eth maxRetries i w =
     (if i < maxRetries then
        (case checkNetworkAttempt eth maxRetries i w of
           (True, w') \<Rightarrow> w'
         | (False, w') \<Rightarrow> checkNetworkLoop eth maxRetries (i + 1) w')
      else w)"
  by pat_completeness auto
termination
  by (relation "measure (\<lambda>(eth, maxRetries, i, w). maxRetries - i)") auto

declare checkNetworkLoop.simps [simp del]

definition checkNetworkWithRetry :: "provider \<Rightarrow> nat \<Rightarrow> world \<Rightarrow> world" where
  "checkNetworkWithRetry eth maxRetries w = checkNetworkLoop eth maxRetries 0 w"

subsection \<open>addNetwork, switchNetwork, connectWallet\<close>

definition addNetwork :: "provider \<Rightarrow> world \<Rightarrow> (thrown + unit) \<times> world" where
  "addNetwork eth w =
     (case wallet_addEthereumChain eth (hostCalls w) OG_NETWORK_CONFIG of
        Inr _ \<Rightarrow>
          (Inr (),
           showToast NetworkAdded
             (setTimeout (CheckNetwork 3) 1000
               (logRequest (WalletAddEthereumChain OG_NETWORK_CONFIG) Void w)))
      | Inl e \<Rightarrow>
          (Inl (Rethrown e), logRequest (WalletAddEthereumChain OG_NETWORK_CONFIG) (Threw e) w))"

definition switchNetwork :: "provider \<Rightarrow> world \<Rightarrow> (thrown + unit) \<times> world" where
  "switchNetwork eth w =
     (let r = WalletSwitchEthereumChain (chainIdHex OG_NETWORK_CONFIG)
      in case wallet_switchEthereumChain eth (hostCalls w) (chainIdHex OG_NETWORK_CONFIG) of
           Inr _ \<Rightarrow>
             (Inr (),
              showToast NetworkSwitched (setTimeout (CheckNetwork 3) 1000 (logRequest r Void w)))
         | Inl e \<Rightarrow>
             if code e = Some 4902 then addNetwork eth (logRequest r (Threw e) w)
             else (Inl (Rethrown e), showToast NetworkSwitchFailed (logRequest r (Threw e) w)))"

text \<open>
  \<^verbatim>\<open>window.ethereum\<close> may be undefined: \<open>None\<close>. The promise of \<open>connectWallet\<close>
  has the result type of the other operations, so that a rejection could be told from a
  fulfilment.
\<close>

definition connectWallet :: "provider option \<Rightarrow> world \<Rightarrow> (thrown + unit) \<times> world" where
  "connectWallet ethereum w =
     (case ethereum of
        None \<Rightarrow> (Inr (), showToast MetaMaskNotFound w)
      | Some eth \<Rightarrow>
          let w1 = setIsLoading True w;
              w2 =
                (case eth_requestAccounts eth (hostCalls w1) of
                   Inr accounts \<Rightarrow>
                     let w3 = logRequest EthRequestAccounts (Accounts accounts) w1;
                         w4 = setAddress (first_account accounts) (setIsConnected True w3);
                         w5 = getBalance eth (first_account accounts) w4;
                         w6 = setItem ''walletAddress'' (toStr (first_account accounts))
                                (setItem ''walletConnected'' ''true'' w5);
                         w7 = setTimeout (CheckNetwork 3) 1000 w6
                     in showToast WalletConnected w7
                 | Inl e \<Rightarrow>
                     let w3 = logRequest EthRequestAccounts (Threw e) w1
                     in if code e = Some 4001 then showToast ConnectionRejected w3
                        else showToast
                               (ConnectionFailed
                                 (orElse (message e) ''Failed to connect wallet. Please try again.''))
                               w3)
          in (Inr (), setIsLoading False w2))"

subsection \<open>Event handlers\<close>

definition handleConnect :: "world \<Rightarrow> world" where
  "handleConnect w = setTimeout (CheckNetwork 3) 1000 w"

definition handleDisconnect :: "world \<Rightarrow> world" where
  "handleDisconnect w = disconnectWallet w"

definition handleAccountsChanged :: "provider \<Rightarrow> string list \<Rightarrow> world \<Rightarrow> world" where
  "handleAccountsChanged eth accounts w =
     (if length accounts = 0 then disconnectWallet w
      else
        let w1 = setAddress (first_account accounts) w;
            w2 = getBalance eth (first_account accounts) w1;
            w3 = setItem ''walletAddress'' (toStr (first_account accounts))
                   (setItem ''walletConnected'' ''true'' w2)
        in setTimeout (CheckNetwork 3) 500 w3)"

text \<open>
  A handler is a closure: the state variables it reads are those of the render that
  created it. \<open>snap\<close> is that render's session; the refs are read from the world.
  The properties below hold for every \<open>snap\<close>.
\<close>

definition handleChainChanged :: "session \<Rightarrow> string \<Rightarrow> world \<Rightarrow> world" where
  "handleChainChanged snap cid w =
     (let isCorrect = (cid = chainIdHex OG_NETWORK_CONFIG);
          w1 = setIsCorrectNetwork isCorrect w
      in if isConnected snap \<and> isInitialized w1 \<and> \<not> hasShownNetworkWarning w1 then
           let w2 = (if \<not> isCorrect then showToast NetworkChanged w1
                     else showToast NetworkConnected w1);
               w3 = w2\<lparr>hasShownNetworkWarning := True\<rparr>
           in setTimeout ResetNetworkWarning 5000 w3
         else w1)"

subsection \<open>Start-up and the monitoring interval\<close>

text \<open>A value that is a string or \<^verbatim>\<open>null\<close>, used as a condition.\<close>

definition truthy :: "string option \<Rightarrow> bool" where
  "truthy v = (case v of None \<Rightarrow> False | Some s \<Rightarrow> s \<noteq> [])"

text \<open>
  \<open>initializeWallet\<close> returns before its \<^verbatim>\<open>try\<close> when there is no wallet; otherwise
  the \<^verbatim>\<open>finally\<close> sets \<^verbatim>\<open>isInitialized\<close>. The interval it starts is the action
  \<open>PollTick\<close> of the step function below.
\<close>

definition initializeWallet :: "provider option \<Rightarrow> world \<Rightarrow> world" where
  "initializeWallet ethereum w =
     (case ethereum of
        None \<Rightarrow> w
      | Some eth \<Rightarrow>
          let wasConnected = localStorage w ''walletConnected'';
              w' =
                (case eth_accounts eth (hostCalls w) of
                   Inl e \<Rightarrow> logRequest EthAccounts (Threw e) w
                 | Inr accounts \<Rightarrow>
                     let w1 = logRequest EthAccounts (Accounts accounts) w
                     in if 0 < length accounts \<and> truthy wasConnected then
                          checkNetworkWithRetry eth 5
                            (getBalance eth (first_account accounts)
                              (setAddress (first_account accounts) (setIsConnected True w1)))
                        else checkNetworkWithRetry eth 3 w1)
          in w'\<lparr>isInitialized := True\<rparr>)"

text \<open>One run of the callback of \<^verbatim>\<open>startContinuousMonitoring\<close>.\<close>

definition pollTick :: "session \<Rightarrow> provider option \<Rightarrow> world \<Rightarrow> world" where
  "pollTick snap ethereum w =
     (case ethereum of
        None \<Rightarrow> w
      | Some eth \<Rightarrow>
          (case eth_accounts eth (hostCalls w) of
             Inl e \<Rightarrow> logRequest EthAccounts (Threw e) w
           | Inr accounts \<Rightarrow>
               let w1 = logRequest EthAccounts (Accounts accounts) w;
                   wasConnected = localStorage w1 ''walletConnected''
               in if 0 < length accounts \<and> truthy wasConnected then
                    let w2 =
                          (if \<not> isConnected snap \<or> address snap \<noteq> first_account accounts then
                             getBalance eth (first_account accounts)
                               (setAddress (first_account accounts) (setIsConnected True w1))
                           else w1)
                    in case eth_chainId eth (hostCalls w2) of
                         Inr cid \<Rightarrow>
                           let isCorrect = (cid = chainIdHex OG_NETWORK_CONFIG);
                               w3 = logRequest EthChainId (Text cid) w2
                           in if isCorrectNetwork snap \<noteq> isCorrect
                              then setIsCorrectNetwork isCorrect w3 else w3
                       | Inl e \<Rightarrow> logRequest EthChainId (Threw e) w2
                  else if isConnected snap then
                    removeItem ''walletAddress''
                      (removeItem ''walletConnected''
                        (setIsCorrectNetwork False
                          (setBalance (Literal ''0'')
                            (setAddress (Some [])
                              (setIsConnected False w1)))))
                  else w1))"

subsection \<open>Timers and runs\<close>

definition runTask :: "provider \<Rightarrow> task \<Rightarrow> world \<Rightarrow> world" where
  "runTask eth t w =
     (case t of
        CheckNetwork n \<Rightarrow> checkNetworkWithRetry eth n w
      | ResetNetworkWarning \<Rightarrow> w\<lparr>hasShownNetworkWarning := False\<rparr>)"

text \<open>
  The clock reaches \<open>t\<close>: the callbacks that are due by then run, earliest first, and
  leave the list of pending timers. A callback never runs before it is due.
\<close>

definition advance :: "provider \<Rightarrow> nat \<Rightarrow> world \<Rightarrow> world" where
  "advance eth t w =
     (let w1 = w\<lparr>now := max (now w) t\<rparr>;
          due = filter (\<lambda>p. fst p \<le> now w1) (timers w1);
          w2 = w1\<lparr>timers := filter (\<lambda>p. \<not> fst p \<le> now w1) (timers w1)\<rparr>
      in fold (\<lambda>p. runTask eth (snd p)) (sort_key fst due) w2)"

datatype action =
    Initialize
  | Connect
  | Disconnect
  | SwitchNetwork
  | SendTransaction string js_string "string option"
  | AccountsChanged "string list"
  | ChainChanged session string
  | HostConnect
  | HostDisconnect
  | PollTick session

fun step :: "provider \<Rightarrow> action \<Rightarrow> world \<Rightarrow> world" where
  "step eth Initialize w = initializeWallet (Some eth) w"
| "step eth Connect w = snd (connectWallet (Some eth) w)"
| "step eth Disconnect w = disconnectWallet w"
| "step eth SwitchNetwork w = snd (switchNetwork eth w)"
| "step eth (SendTransaction to v d) w = snd (sendTransaction eth to v d w)"
| "step eth (AccountsChanged accounts) w = handleAccountsChanged eth accounts w"
| "step eth (ChainChanged snap cid) w = handleChainChanged snap cid w"
| "step eth HostConnect w = handleConnect w"
| "step eth HostDisconnect w = handleDisconnect w"
| "step eth (PollTick snap) w = pollTick snap (Some eth) w"

text \<open>A run: each action happens at its time, after the timers due by then.\<close>

fun run :: "provider \<Rightarrow> (nat \<times> action) list \<Rightarrow> world \<Rightarrow> world" where
  "run eth [] w = w"
| "run eth ((t, a) # rest) w = run eth rest (step eth a (advance eth t w))"

subsection \<open>Vocabulary of the properties\<close>

text \<open>The transactions handed to the wallet, in the order of the trace.\<close>

definition submitted :: "(nat \<times> effect) list \<Rightarrow> tx_params list" where
  "submitted tr =
     concat (map (\<lambda>p. case snd p of Request (EthSendTransaction q) _ \<Rightarrow> [q] | _ \<Rightarrow> []) tr)"


text \<open>After white space and one sign, no decimal digit leads the string.\<close>

definition noNumericPrefix :: "js_string \<Rightarrow> bool" where
  "noNumericPrefix v =
     (let S = dropWhile isWhiteSpace v;
          S1 = (if S \<noteq> [] \<and> (hd S = of_char (CHR ''+'') \<or> hd S = of_char (CHR ''-''))
                then tl S else S)
      in S1 = [] \<or> \<not> isRadixDigit 10 (hd S1))"

text \<open>
  A wallet with one account on the configured chain that accepts every request, and a
  session connected to it.
\<close>

definition sample_account :: string where
  "sample_account = ''0xaaaaaaaaaaaaaaaaaaaaaaaaaaaaaaaaaaaaaaaa''"

definition sample_wallet :: provider where
  "sample_wallet =
     \<lparr> eth_accounts = (\<lambda>n. Inr [sample_account]),
       eth_requestAccounts = (\<lambda>n. Inr [sample_account]),
       eth_chainId = (\<lambda>n. Inr ''0x40D9''),
       eth_getBalance = (\<lambda>n a. Inr ''0xde0b6b3a7640000''),
       wallet_switchEthereumChain = (\<lambda>n c. Inr ()),
       wallet_addEthereumChain = (\<lambda>n c. Inr ()),
       eth_sendTransaction = (\<lambda>n p. Inr ''0xfeed'') \<rparr>"

definition ready_world :: world where
  "ready_world =
     setIsCorrectNetwork True
       (setAddress (Some sample_account) (setIsConnected True initial_world))"


text \<open>The toasts shown, and the descriptors sent with an add-chain request, in order.\<close>

definition toasts :: "(nat \<times> effect) list \<Rightarrow> toast list" where
  "toasts tr = concat (map (\<lambda>p. case snd p of Toast t \<Rightarrow> [t] | _ \<Rightarrow> []) tr)"

definition addChainRequests :: "(nat \<times> effect) list \<Rightarrow> network_config list" where
  "addChainRequests tr =
     concat (map (\<lambda>p. case snd p of Request (WalletAddEthereumChain c) _ \<Rightarrow> [c] | _ \<Rightarrow> []) tr)"

text \<open>
  The times at which a toast of \<open>handleChainChanged\<close> ("Network Changed" or
  "Network Connected") was shown.
\<close>

definition isNetworkToast :: "effect \<Rightarrow> bool" where
  "isNetworkToast e = (e = Toast NetworkChanged \<or> e = Toast NetworkConnected)"

definition networkToasts :: "(nat \<times> effect) list \<Rightarrow> nat list" where
  "networkToasts tr = map fst (filter (\<lambda>p. isNetworkToast (snd p)) tr)"

text \<open>
  What a network check leaves alone: the connection fields, the loading flag, storage,
  the pending timers, the two other refs and the toasts; the clock does not go back.
\<close>

definition frame :: "world \<Rightarrow> world \<Rightarrow> bool" where
  "frame w w' =
     (isConnected (sess w') = isConnected (sess w)
      \<and> address (sess w') = address (sess w)
      \<and> balance (sess w') = balance (sess w)
      \<and> isLoading (sess w') = isLoading (sess w)
      \<and> localStorage w' = localStorage w
      \<and> timers w' = timers w
      \<and> hasShownNetworkWarning w' = hasShownNetworkWarning w
      \<and> isInitialized w' = isInitialized w
      \<and> toasts (trace w') = toasts (trace w)
      \<and> networkToasts (trace w') = networkToasts (trace w)
      \<and> addChainRequests (trace w') = addChainRequests (trace w)
      \<and> submitted (trace w') = submitted (trace w)
      \<and> now w \<le> now w')"

text \<open>The answers to the chain-id reads, in order; a thrown error is an answer too.\<close>

definition chainReads :: "(nat \<times> effect) list \<Rightarrow> reply list" where
  "chainReads tr = concat (map (\<lambda>p. case snd p of Request EthChainId a \<Rightarrow> [a] | _ \<Rightarrow> []) tr)"

definition replyOf :: "rpc_error + string \<Rightarrow> reply" where
  "replyOf r = (case r of Inl e \<Rightarrow> Threw e | Inr s \<Rightarrow> Text s)"

text \<open>A wallet on another chain, and one whose chain-id read always fails.\<close>

definition wrong_chain_wallet :: provider where
  "wrong_chain_wallet = sample_wallet\<lparr>eth_chainId := (\<lambda>n. Inr ''0x1'')\<rparr>"

definition throwing_wallet :: provider where
  "throwing_wallet =
     sample_wallet\<lparr>eth_chainId := (\<lambda>n. Inl \<lparr>code = Some (-32603), message = Some ''Internal error''\<rparr>)\<rparr>"

definition wrong_network_world :: world where
  "wrong_network_world = checkNetworkWithRetry wrong_chain_wallet 3 initial_world"


text \<open>
  Wallets that do not know the configured chain (error 4902 on a switch), one accepting
  the add-chain request and one where the user rejects it (error 4001); a wallet where
  the user rejects the switch; and wallets that reject or fail the account request.
\<close>

definition unknown_chain_wallet :: provider where
  "unknown_chain_wallet =
     sample_wallet\<lparr>wallet_switchEthereumChain :=
       (\<lambda>n c. Inl \<lparr>code = Some 4902, message = Some ''Unrecognized chain ID''\<rparr>)\<rparr>"

definition stubborn_wallet :: provider where
  "stubborn_wallet =
     unknown_chain_wallet\<lparr>wallet_addEthereumChain :=
       (\<lambda>n c. Inl \<lparr>code = Some 4001, message = Some ''User rejected the request.''\<rparr>)\<rparr>"

definition refusing_wallet :: provider where
  "refusing_wallet =
     sample_wallet\<lparr>wallet_switchEthereumChain :=
       (\<lambda>n c. Inl \<lparr>code = Some 4001, message = Some ''User rejected the request.''\<rparr>)\<rparr>"

definition rejecting_wallet :: provider where
  "rejecting_wallet =
     sample_wallet\<lparr>eth_requestAccounts :=
       (\<lambda>n. Inl \<lparr>code = Some 4001, message = Some ''User rejected the request.''\<rparr>)\<rparr>"

definition failing_wallet :: provider where
  "failing_wallet =
     sample_wallet\<lparr>eth_requestAccounts :=
       (\<lambda>n. Inl \<lparr>code = Some (-32002), message = None\<rparr>)\<rparr>"


text \<open>The pending callbacks that reset \<^verbatim>\<open>hasShownNetworkWarning\<close>.\<close>

definition resetTimers :: "world \<Rightarrow> (nat \<times> task) multiset" where
  "resetTimers w = filter_mset (\<lambda>p. snd p = ResetNetworkWarning) (mset (timers w))"

text \<open>
  A step that shows no toast of \<open>handleChainChanged\<close>, leaves the warning flag and
  the pending resets alone and does not turn the clock back.
\<close>

definition quiet :: "world \<Rightarrow> world \<Rightarrow> bool" where
  "quiet w w' =
     (hasShownNetworkWarning w' = hasShownNetworkWarning w
      \<and> networkToasts (trace w') = networkToasts (trace w)
      \<and> resetTimers w' = resetTimers w
      \<and> now w \<le> now w')"

text \<open>
  The invariant behind the cooldown: the toasts so far are 5000 ms apart and not in the
  future; at most one reset is pending, due no earlier than 5000 ms after every toast;
  and while the flag is down no reset is pending and every toast is 5000 ms old.
\<close>

definition cooldown :: "world \<Rightarrow> bool" where
  "cooldown w =
     (sorted_wrt (\<lambda>t u. t + 5000 \<le> u) (networkToasts (trace w))
      \<and> (\<forall>t \<in> set (networkToasts (trace w)). t \<le> now w)
      \<and> size (resetTimers w) \<le> 1
      \<and> (\<forall>p \<in># resetTimers w. \<forall>t \<in> set (networkToasts (trace w)). t + 5000 \<le> fst p)
      \<and> (\<not> hasShownNetworkWarning w \<longrightarrow>
           resetTimers w = {#} \<and> (\<forall>t \<in> set (networkToasts (trace w)). t + 5000 \<le> now w)))"


text \<open>
  A session as a render sees it once \<open>sample_wallet\<close> is connected on the configured
  network, and a run in which the chain changes three times within about five seconds.
\<close>

definition connected_session :: session where
  "connected_session =
     \<lparr> isConnected = True, address = Some sample_account,
       balance = BalanceInOG ''0xde0b6b3a7640000'', isCorrectNetwork = True,
       isLoading = False \<rparr>"

definition busy_run :: "(nat \<times> action) list" where
  "busy_run =
     [(0, Initialize),
      (10, ChainChanged connected_session ''0x1''),
      (1000, ChainChanged connected_session ''0x40D9''),
      (3000, PollTick connected_session),
      (5010, ChainChanged connected_session ''0x1'')]"








section \<open>Properties\<close>

lemmas setters =
  setIsConnected_def setAddress_def setBalance_def setIsCorrectNetwork_def
  setIsLoading_def setItem_def removeItem_def emit_def showToast_def logRequest_def
  sleep_def setTimeout_def

text \<open>
  C6. \<open>disconnectWallet\<close> is a total function of the state with no failure result
  (synchronous, always succeeds). It leaves the session with connected false, the empty
  address, balance "0" and correctNetwork false, and storage without the two keys
  "walletConnected" and "walletAddress". Calling it a second time gives the same session
  and the same storage as calling it once.
\<close>

theorem disconnectWallet_clears_idempotent:
  "isConnected (sess (disconnectWallet w)) = False
   \<and> address (sess (disconnectWallet w)) = Some []
   \<and> balance (sess (disconnectWallet w)) = Literal ''0''
   \<and> isCorrectNetwork (sess (disconnectWallet w)) = False
   \<and> localStorage (disconnectWallet w) ''walletConnected'' = None
   \<and> localStorage (disconnectWallet w) ''walletAddress'' = None
   \<and> sess (disconnectWallet (disconnectWallet w)) = sess (disconnectWallet w)
   \<and> localStorage (disconnectWallet (disconnectWallet w)) = localStorage (disconnectWallet w)"
  by (simp add: disconnectWallet_def setters)

subsection \<open>Number conversion\<close>








lemma submitted_append: "submitted (xs @ ys) = submitted xs @ submitted ys"
  by (simp add: submitted_def)


lemmas jsnum =
  parseInt_def toString16_def toFloat64_def mathInt_def isRadixDigit_def digitVal_def
  isWhiteSpace_def codeUnits_def bits.simps toHex.simps hexDigit_def Let_def

lemmas samples =
  sample_wallet_def sample_account_def ready_world_def initial_world_def initial_session_def

subsection \<open>sendTransaction\<close>

text \<open>
  C1. With connected false, \<open>sendTransaction\<close> fails with the error "Wallet not
  connected", whatever correctNetwork is; with connected true and correctNetwork false it
  fails with "Please switch to 0G Network". In both cases the world it returns is the
  world it was called in: nothing was sent to the wallet, the trace and the count of
  requests are unchanged.
\<close>

theorem sendTransaction_preconditions:
  "(\<not> isConnected (sess w) \<longrightarrow>
      sendTransaction eth to v d w = (Inl NotConnectedError, w))
   \<and> (isConnected (sess w) \<and> \<not> isCorrectNetwork (sess w) \<longrightarrow>
      sendTransaction eth to v d w = (Inl WrongNetworkError, w))
   \<and> (\<not> (isConnected (sess w) \<and> isCorrectNetwork (sess w)) \<longrightarrow>
      trace (snd (sendTransaction eth to v d w)) = trace w
      \<and> hostCalls (snd (sendTransaction eth to v d w)) = hostCalls w)"
  by (simp add: sendTransaction_def NotConnectedError_def WrongNetworkError_def)

theorem sendTransaction_preconditions_witness:
  "sendTransaction sample_wallet ''0xRecipient'' (codeUnits ''1'') None (setIsCorrectNetwork True initial_world)
     = (Inl NotConnectedError, setIsCorrectNetwork True initial_world)
   \<and> sendTransaction sample_wallet ''0xRecipient'' (codeUnits ''1'') None (setIsConnected True initial_world)
     = (Inl WrongNetworkError, setIsConnected True initial_world)
   \<and> trace (snd (sendTransaction sample_wallet ''0xRecipient'' (codeUnits ''1'') None initial_world)) = []"
  using sendTransaction_preconditions
          [of "setIsCorrectNetwork True initial_world" sample_wallet "''0xRecipient''" "codeUnits ''1''" None]
        sendTransaction_preconditions
          [of "setIsConnected True initial_world" sample_wallet "''0xRecipient''" "codeUnits ''1''" None]
        sendTransaction_preconditions
          [of initial_world sample_wallet "''0xRecipient''" "codeUnits ''1''" None]
  by (simp add: samples setters)

text \<open>
  The scenario of the specification: one ether, 1000000000000000000 wei, is sent as
  0xde0b6b3a7640000 with data 0x from the session's address, and the wallet's answer is
  returned as it is.
\<close>

lemma sendTransaction_one_ether:
  "sendTransaction sample_wallet ''0xRecipient'' (codeUnits ''1000000000000000000'') None ready_world =
     (Inr ''0xfeed'',
      logRequest
        (EthSendTransaction
          \<lparr> tx_from = Some sample_account, tx_to = ''0xRecipient'',
            tx_value = ''0xde0b6b3a7640000'', tx_data = ''0x'' \<rparr>)
        (Text ''0xfeed'') ready_world)"
  by (simp add: sendTransaction_def samples setters orElse_def jsnum)

text \<open>
  C3. The claim holds for the sender, the default of data and the scenario above, but
  not for the value: the decimal string goes through a double. For 1234567890123456789
  the wallet receives 0x112210f47de98100, which is 1234567890123456768, while the
  base-16 numeral of 1234567890123456789 is 112210f47de98115.
\<close>

theorem sendTransaction_value_lossy:
  "submitted (trace (snd (sendTransaction sample_wallet ''0xRecipient''
                             (codeUnits ''1234567890123456789'') None ready_world))) =
     [\<lparr> tx_from = Some sample_account, tx_to = ''0xRecipient'',
        tx_value = ''0x112210f47de98100'', tx_data = ''0x'' \<rparr>]
   \<and> toHex 1234567890123456789 = ''112210f47de98115''
   \<and> mathInt 10 (codeUnits ''1234567890123456789'') = 1234567890123456789"
  by (simp add: sendTransaction_def samples setters orElse_def submitted_def jsnum)

text \<open>
  White space beyond ASCII is skipped like a blank: a no-break space (U+00A0) or a byte
  order mark (U+FEFF) before the digit 1 gives the value field 0x1.
\<close>

lemma sendTransaction_leading_space:
  "toString16 (parseInt [0xA0, 0x31]) = ''1''
   \<and> toString16 (parseInt [0xFEFF, 0x2028, 0x3000, 0x31]) = ''1''
   \<and> \<not> noNumericPrefix [0xA0, 0x31]
   \<and> submitted (trace (snd (sendTransaction sample_wallet ''0xRecipient'' [0xA0, 0x31] None
                              ready_world))) =
       [\<lparr> tx_from = Some sample_account, tx_to = ''0xRecipient'',
          tx_value = ''0x1'', tx_data = ''0x'' \<rparr>]"
  by (simp add: sendTransaction_def samples setters orElse_def submitted_def noNumericPrefix_def
        jsnum)



subsection \<open>checkNetworkWithRetry\<close>

lemma frame_refl: "frame w w"
  by (simp add: frame_def)

lemma frame_trans: "frame w w1 \<Longrightarrow> frame w1 w2 \<Longrightarrow> frame w w2"
  by (simp add: frame_def)

lemma frame_sleep: "frame w (sleep d w)"
  by (simp add: frame_def setters toasts_def addChainRequests_def submitted_def networkToasts_def
        isNetworkToast_def)

lemma frame_chainId: "frame w (logRequest EthChainId a w)"
  by (simp add: frame_def setters toasts_def addChainRequests_def submitted_def networkToasts_def
        isNetworkToast_def)

lemma frame_setIsCorrectNetwork: "frame w (setIsCorrectNetwork b w)"
  by (simp add: frame_def setters)

lemma frame_attempts: "frame w (w\<lparr>networkCheckAttempts := k\<rparr>)"
  by (simp add: frame_def)

lemma checkNetworkLoop_unfold:
  "checkNetworkLoop eth maxRetries i w =
     (if i < maxRetries then
        let w1 = (if 0 < i then sleep 1500 w else w)
        in case eth_chainId eth (hostCalls w1) of
             Inr cid \<Rightarrow>
               let isCorrect = (cid = chainIdHex OG_NETWORK_CONFIG);
                   w2 = logRequest EthChainId (Text cid) w1;
                   w3 = setIsCorrectNetwork isCorrect w2;
                   w4 = w3\<lparr>networkCheckAttempts := i + 1\<rparr>
               in if isCorrect then w4 else checkNetworkLoop eth maxRetries (i + 1) w4
           | Inl e \<Rightarrow>
               let w2 = logRequest EthChainId (Threw e) w1;
                   w3 = (if i + 1 = maxRetries then setIsCorrectNetwork False w2 else w2)
               in checkNetworkLoop eth maxRetries (i + 1) w3
      else w)"
  by (subst checkNetworkLoop.simps)
     (simp add: checkNetworkAttempt_def Let_def split: sum.splits)

lemma checkNetworkLoop_frame_aux:
  "maxRetries - i = k \<Longrightarrow> frame w (checkNetworkLoop eth maxRetries i w)"
proof (induction k arbitrary: i w)
  case 0
  then show ?case by (simp add: checkNetworkLoop_unfold [of eth maxRetries i w] frame_refl)
next
  case (Suc k)
  then have lt: "i < maxRetries" and next_k: "maxRetries - (i + 1) = k" by simp_all
  define w1 where "w1 = (if 0 < i then sleep 1500 w else w)"
  have f1: "frame w w1" by (simp add: w1_def frame_refl frame_sleep)
  show ?case
  proof (cases "eth_chainId eth (hostCalls w1)")
    case (Inr cid)
    define w4 where
      "w4 = (setIsCorrectNetwork (cid = chainIdHex OG_NETWORK_CONFIG)
               (logRequest EthChainId (Text cid) w1))\<lparr>networkCheckAttempts := i + 1\<rparr>"
    have f4: "frame w w4"
      unfolding w4_def
      by (rule frame_trans [OF f1], rule frame_trans [OF frame_chainId],
          rule frame_trans [OF frame_setIsCorrectNetwork], rule frame_attempts)
    have "checkNetworkLoop eth maxRetries i w =
            (if cid = chainIdHex OG_NETWORK_CONFIG then w4
             else checkNetworkLoop eth maxRetries (i + 1) w4)"
      using lt Inr
      by (simp add: checkNetworkLoop_unfold [of eth maxRetries i w] w1_def [symmetric] w4_def Let_def)
    then show ?thesis
      using f4 frame_trans [OF f4 Suc.IH [OF next_k]] by simp
  next
    case (Inl e)
    define w3 where
      "w3 = (if i + 1 = maxRetries then setIsCorrectNetwork False (logRequest EthChainId (Threw e) w1)
             else logRequest EthChainId (Threw e) w1)"
    have f3: "frame w w3"
      unfolding w3_def
      using frame_trans [OF f1 frame_chainId]
            frame_trans [OF frame_trans [OF f1 frame_chainId] frame_setIsCorrectNetwork]
      by simp
    have "checkNetworkLoop eth maxRetries i w = checkNetworkLoop eth maxRetries (i + 1) w3"
      using lt Inl
      by (simp add: checkNetworkLoop_unfold [of eth maxRetries i w] w1_def [symmetric] w3_def Let_def)
    then show ?thesis
      using frame_trans [OF f3 Suc.IH [OF next_k]] by simp
  qed
qed

lemma checkNetworkWithRetry_frame: "frame w (checkNetworkWithRetry eth maxRetries w)"
  by (simp add: checkNetworkWithRetry_def checkNetworkLoop_frame_aux)

lemma chainReads_append: "chainReads (xs @ ys) = chainReads xs @ chainReads ys"
  by (simp add: chainReads_def)

lemma checkNetworkLoop_stop: "\<not> i < maxRetries \<Longrightarrow> checkNetworkLoop eth maxRetries i w = w"
  by (simp add: checkNetworkLoop_unfold [of eth maxRetries i w])

lemma checkNetworkLoop_right:
  assumes "i < maxRetries"
    and "eth_chainId eth (hostCalls w) = Inr (chainIdHex OG_NETWORK_CONFIG)"
  shows "isCorrectNetwork (sess (checkNetworkLoop eth maxRetries i w))
         \<and> hostCalls (checkNetworkLoop eth maxRetries i w) = hostCalls w + 1
         \<and> now (checkNetworkLoop eth maxRetries i w) = now w + (if 0 < i then 1500 else 0)
         \<and> networkCheckAttempts (checkNetworkLoop eth maxRetries i w) = i + 1
         \<and> chainReads (trace (checkNetworkLoop eth maxRetries i w)) =
             chainReads (trace w) @ [Text (chainIdHex OG_NETWORK_CONFIG)]"
  using assms
  by (simp add: checkNetworkLoop_unfold [of eth maxRetries i w] Let_def setters chainReads_def)

lemma checkNetworkLoop_wrong:
  assumes "i < maxRetries"
    and "eth_chainId eth (hostCalls w) \<noteq> Inr (chainIdHex OG_NETWORK_CONFIG)"
  shows "\<exists>w1. checkNetworkLoop eth maxRetries i w = checkNetworkLoop eth maxRetries (i + 1) w1
           \<and> hostCalls w1 = hostCalls w + 1
           \<and> now w1 = now w + (if 0 < i then 1500 else 0)
           \<and> chainReads (trace w1) =
               chainReads (trace w) @ [replyOf (eth_chainId eth (hostCalls w))]
           \<and> (i + 1 = maxRetries \<longrightarrow> \<not> isCorrectNetwork (sess w1))"
proof (cases "eth_chainId eth (hostCalls w)")
  case (Inr cid)
  with assms(2) have ne: "cid \<noteq> chainIdHex OG_NETWORK_CONFIG" by simp
  show ?thesis
    apply (rule exI [of _ "(setIsCorrectNetwork False
              (logRequest EthChainId (Text cid) (if 0 < i then sleep 1500 w else w)))
                \<lparr>networkCheckAttempts := i + 1\<rparr>"])
    using assms(1) Inr ne
    by (simp add: checkNetworkLoop_unfold [of eth maxRetries i w] Let_def setters chainReads_def
          replyOf_def)
next
  case (Inl e)
  define w1 where "w1 = (if 0 < i then sleep 1500 w else w)"
  define w3 where
    "w3 = (if i + 1 = maxRetries then setIsCorrectNetwork False (logRequest EthChainId (Threw e) w1)
           else logRequest EthChainId (Threw e) w1)"
  have hc1: "hostCalls w1 = hostCalls w"
    by (simp add: w1_def setters)
  have unf: "checkNetworkLoop eth maxRetries i w = checkNetworkLoop eth maxRetries (i + 1) w3"
    using assms(1) Inl
    by (simp add: checkNetworkLoop_unfold [of eth maxRetries i w] w1_def [symmetric] hc1 w3_def Let_def)
  have a: "hostCalls w3 = hostCalls w + 1"
    and b: "now w3 = now w + (if 0 < i then 1500 else 0)"
    and c: "chainReads (trace w3) = chainReads (trace w) @ [replyOf (eth_chainId eth (hostCalls w))]"
    by (simp_all add: w3_def w1_def setters chainReads_def replyOf_def Inl)
  have d: "i + 1 = maxRetries \<longrightarrow> \<not> isCorrectNetwork (sess w3)"
    by (auto simp add: w3_def setters)
  show ?thesis
    using unf a b c d by blast
qed

lemma checkNetworkLoop_found:
  assumes "\<forall>j<d. eth_chainId eth (hostCalls w + j) \<noteq> Inr (chainIdHex OG_NETWORK_CONFIG)"
    and "eth_chainId eth (hostCalls w + d) = Inr (chainIdHex OG_NETWORK_CONFIG)"
    and "i + d < maxRetries"
  shows "isCorrectNetwork (sess (checkNetworkLoop eth maxRetries i w))
         \<and> hostCalls (checkNetworkLoop eth maxRetries i w) = hostCalls w + d + 1
         \<and> now (checkNetworkLoop eth maxRetries i w) = now w + 1500 * (d + (if 0 < i then 1 else 0))
         \<and> networkCheckAttempts (checkNetworkLoop eth maxRetries i w) = i + d + 1
         \<and> chainReads (trace (checkNetworkLoop eth maxRetries i w)) =
             chainReads (trace w) @ map (\<lambda>j. replyOf (eth_chainId eth (hostCalls w + j))) [0..<Suc d]"
  using assms
proof (induction d arbitrary: i w)
  case 0
  then show ?case
    using checkNetworkLoop_right [of i maxRetries eth w] by (simp add: replyOf_def)
next
  case (Suc d)
  from Suc.prems have lt: "i < maxRetries"
    and wrong: "eth_chainId eth (hostCalls w) \<noteq> Inr (chainIdHex OG_NETWORK_CONFIG)"
    by auto
  from checkNetworkLoop_wrong [OF lt wrong] obtain w1 where
    eq: "checkNetworkLoop eth maxRetries i w = checkNetworkLoop eth maxRetries (i + 1) w1"
    and hc: "hostCalls w1 = hostCalls w + 1"
    and nw: "now w1 = now w + (if 0 < i then 1500 else 0)"
    and cr: "chainReads (trace w1) = chainReads (trace w) @ [replyOf (eth_chainId eth (hostCalls w))]"
    by blast
  have p1: "\<forall>j<d. eth_chainId eth (hostCalls w1 + j) \<noteq> Inr (chainIdHex OG_NETWORK_CONFIG)"
  proof (intro allI impI)
    fix j assume "j < d"
    then have "Suc j < Suc d" by simp
    with Suc.prems(1) have "eth_chainId eth (hostCalls w + Suc j) \<noteq> Inr (chainIdHex OG_NETWORK_CONFIG)"
      by blast
    then show "eth_chainId eth (hostCalls w1 + j) \<noteq> Inr (chainIdHex OG_NETWORK_CONFIG)"
      by (simp add: hc)
  qed
  have p2: "eth_chainId eth (hostCalls w1 + d) = Inr (chainIdHex OG_NETWORK_CONFIG)"
    using Suc.prems(2) by (simp add: hc)
  have p3: "(i + 1) + d < maxRetries"
    using Suc.prems(3) by simp
  have shift: "map (\<lambda>j. replyOf (eth_chainId eth (hostCalls w + j))) [0..<Suc (Suc d)] =
        replyOf (eth_chainId eth (hostCalls w)) #
          map (\<lambda>j. replyOf (eth_chainId eth (hostCalls w1 + j))) [0..<Suc d]"
    by (subst map_upt_Suc) (simp add: hc)
  show ?case
    unfolding eq shift
    using Suc.IH [OF p1 p2 p3] by (simp add: hc nw cr)
qed

lemma checkNetworkLoop_exhausted:
  assumes "maxRetries - i = Suc k"
    and "\<forall>j<Suc k. eth_chainId eth (hostCalls w + j) \<noteq> Inr (chainIdHex OG_NETWORK_CONFIG)"
  shows "\<not> isCorrectNetwork (sess (checkNetworkLoop eth maxRetries i w))
         \<and> hostCalls (checkNetworkLoop eth maxRetries i w) = hostCalls w + Suc k
         \<and> now (checkNetworkLoop eth maxRetries i w) = now w + 1500 * (k + (if 0 < i then 1 else 0))
         \<and> chainReads (trace (checkNetworkLoop eth maxRetries i w)) =
             chainReads (trace w) @ map (\<lambda>j. replyOf (eth_chainId eth (hostCalls w + j))) [0..<Suc k]"
  using assms
proof (induction k arbitrary: i w)
  case 0
  then have lt: "i < maxRetries" and last: "i + 1 = maxRetries"
    and wrong: "eth_chainId eth (hostCalls w) \<noteq> Inr (chainIdHex OG_NETWORK_CONFIG)"
    by auto
  from checkNetworkLoop_wrong [OF lt wrong] obtain w1 where
    eq: "checkNetworkLoop eth maxRetries i w = checkNetworkLoop eth maxRetries (i + 1) w1"
    and hc: "hostCalls w1 = hostCalls w + 1"
    and nw: "now w1 = now w + (if 0 < i then 1500 else 0)"
    and cr: "chainReads (trace w1) = chainReads (trace w) @ [replyOf (eth_chainId eth (hostCalls w))]"
    and fl: "i + 1 = maxRetries \<longrightarrow> \<not> isCorrectNetwork (sess w1)"
    by blast
  have stop: "checkNetworkLoop eth maxRetries (i + 1) w1 = w1"
    using last by (simp add: checkNetworkLoop_stop)
  show ?case
    unfolding eq stop using hc nw cr fl last by simp
next
  case (Suc k)
  then have lt: "i < maxRetries"
    and wrong: "eth_chainId eth (hostCalls w) \<noteq> Inr (chainIdHex OG_NETWORK_CONFIG)"
    by auto
  from checkNetworkLoop_wrong [OF lt wrong] obtain w1 where
    eq: "checkNetworkLoop eth maxRetries i w = checkNetworkLoop eth maxRetries (i + 1) w1"
    and hc: "hostCalls w1 = hostCalls w + 1"
    and nw: "now w1 = now w + (if 0 < i then 1500 else 0)"
    and cr: "chainReads (trace w1) = chainReads (trace w) @ [replyOf (eth_chainId eth (hostCalls w))]"
    by blast
  have p1: "maxRetries - (i + 1) = Suc k"
    using Suc.prems(1) by simp
  have p2: "\<forall>j<Suc k. eth_chainId eth (hostCalls w1 + j) \<noteq> Inr (chainIdHex OG_NETWORK_CONFIG)"
  proof (intro allI impI)
    fix j assume "j < Suc k"
    then have "Suc j < Suc (Suc k)" by simp
    with Suc.prems(2) have "eth_chainId eth (hostCalls w + Suc j) \<noteq> Inr (chainIdHex OG_NETWORK_CONFIG)"
      by blast
    then show "eth_chainId eth (hostCalls w1 + j) \<noteq> Inr (chainIdHex OG_NETWORK_CONFIG)"
      by (simp add: hc)
  qed
  have shift: "map (\<lambda>j. replyOf (eth_chainId eth (hostCalls w + j))) [0..<Suc (Suc k)] =
        replyOf (eth_chainId eth (hostCalls w)) #
          map (\<lambda>j. replyOf (eth_chainId eth (hostCalls w1 + j))) [0..<Suc k]"
    by (subst map_upt_Suc) (simp add: hc)
  show ?case
    unfolding eq shift
    using Suc.IH [OF p1 p2] by (simp add: hc nw cr)
qed

lemma checkNetworkAttempt_threw:
  assumes "eth_chainId eth (hostCalls w) = Inl e"
  shows "\<not> fst (checkNetworkAttempt eth maxRetries i w)
         \<and> isCorrectNetwork (sess (snd (checkNetworkAttempt eth maxRetries i w))) =
             (if i + 1 = maxRetries then False else isCorrectNetwork (sess w))
         \<and> networkCheckAttempts (snd (checkNetworkAttempt eth maxRetries i w)) =
             networkCheckAttempts w
         \<and> chainReads (trace (snd (checkNetworkAttempt eth maxRetries i w))) =
             chainReads (trace w) @ [Threw e]"
  using assms by (simp add: checkNetworkAttempt_def Let_def setters chainReads_def)

lemma checkNetworkAttempt_returned:
  assumes "eth_chainId eth (hostCalls w) = Inr cid"
  shows "fst (checkNetworkAttempt eth maxRetries i w) = (cid = chainIdHex OG_NETWORK_CONFIG)
         \<and> isCorrectNetwork (sess (snd (checkNetworkAttempt eth maxRetries i w))) =
             (cid = chainIdHex OG_NETWORK_CONFIG)
         \<and> networkCheckAttempts (snd (checkNetworkAttempt eth maxRetries i w)) = i + 1
         \<and> chainReads (trace (snd (checkNetworkAttempt eth maxRetries i w))) =
             chainReads (trace w) @ [Text cid]"
  using assms by (simp add: checkNetworkAttempt_def Let_def setters chainReads_def)

lemma checkNetworkLoop_all_threw:
  assumes "maxRetries - i = k"
    and "\<forall>j<k. \<exists>e. eth_chainId eth (hostCalls w + j) = Inl e"
  shows "networkCheckAttempts (checkNetworkLoop eth maxRetries i w) = networkCheckAttempts w"
  using assms
proof (induction k arbitrary: i w)
  case 0
  then show ?case by (simp add: checkNetworkLoop_stop)
next
  case (Suc k)
  then have lt: "i < maxRetries" and next_k: "maxRetries - (i + 1) = k" by simp_all
  from Suc.prems(2) obtain e where e: "eth_chainId eth (hostCalls w) = Inl e" by force
  define w' where "w' = snd (checkNetworkAttempt eth maxRetries i w)"
  have eq: "checkNetworkLoop eth maxRetries i w = checkNetworkLoop eth maxRetries (i + 1) w'"
    using lt checkNetworkAttempt_threw [OF e, of maxRetries i]
    by (subst checkNetworkLoop.simps) (auto simp add: w'_def split: prod.splits)
  have hc: "hostCalls w' = hostCalls w + 1"
    using e by (simp add: w'_def checkNetworkAttempt_def Let_def setters)
  have same: "networkCheckAttempts w' = networkCheckAttempts w"
    using checkNetworkAttempt_threw [OF e, of maxRetries i] by (simp add: w'_def)
  have rest: "\<forall>j<k. \<exists>e. eth_chainId eth (hostCalls w' + j) = Inl e"
  proof (intro allI impI)
    fix j assume "j < k"
    then have "Suc j < Suc k" by simp
    with Suc.prems(2) have "\<exists>e. eth_chainId eth (hostCalls w + Suc j) = Inl e" by blast
    then show "\<exists>e. eth_chainId eth (hostCalls w' + j) = Inl e" by (simp add: hc)
  qed
  from Suc.IH [OF next_k rest] show ?case
    by (simp add: eq same)
qed

lemmas wallets = wrong_chain_wallet_def throwing_wallet_def wrong_network_world_def

text \<open>
  C2, as the code has it. The loop reads the chain id at most \<open>maxRetries\<close> times,
  sleeping 1500 ms before every read but the first, and compares the answer with the
  configured hex string by equality. If read number \<open>d\<close> (from 0) is the first to
  return the configured id, the loop stops there with correctNetwork true after \<open>d + 1\<close>
  reads and \<open>d\<close> delays. If no read returns it, all \<open>maxRetries\<close> reads are made and
  correctNetwork is false at the end, whether the reads returned another chain id or
  threw: the outcome is a boolean and the loop keeps no third value. Pass by pass: a read
  that throws does not end the loop, leaves the attempt counter alone, and leaves
  correctNetwork as it was unless the pass is the last one, which sets it to false; a
  read that returns sets correctNetwork to the result of the comparison and the counter
  to \<open>i + 1\<close>, and ends the loop exactly when the chain is the configured one. When
  every read throws, the attempt counter is at the end what it was at the start. The
  connection fields, storage, timers and toasts are untouched.
\<close>

theorem checkNetworkWithRetry_outcome:
  "(d < maxRetries
      \<and> (\<forall>j<d. eth_chainId eth (hostCalls w + j) \<noteq> Inr (chainIdHex OG_NETWORK_CONFIG))
      \<and> eth_chainId eth (hostCalls w + d) = Inr (chainIdHex OG_NETWORK_CONFIG) \<longrightarrow>
        isCorrectNetwork (sess (checkNetworkWithRetry eth maxRetries w))
        \<and> chainReads (trace (checkNetworkWithRetry eth maxRetries w)) =
            chainReads (trace w) @ map (\<lambda>j. replyOf (eth_chainId eth (hostCalls w + j))) [0..<Suc d]
        \<and> now (checkNetworkWithRetry eth maxRetries w) = now w + 1500 * d)
   \<and> (0 < maxRetries
      \<and> (\<forall>j<maxRetries. eth_chainId eth (hostCalls w + j) \<noteq> Inr (chainIdHex OG_NETWORK_CONFIG)) \<longrightarrow>
        \<not> isCorrectNetwork (sess (checkNetworkWithRetry eth maxRetries w))
        \<and> chainReads (trace (checkNetworkWithRetry eth maxRetries w)) =
            chainReads (trace w) @ map (\<lambda>j. replyOf (eth_chainId eth (hostCalls w + j))) [0..<maxRetries]
        \<and> now (checkNetworkWithRetry eth maxRetries w) = now w + 1500 * (maxRetries - 1))
   \<and> (eth_chainId eth (hostCalls w) = Inl e \<longrightarrow>
        \<not> fst (checkNetworkAttempt eth maxRetries i w)
        \<and> isCorrectNetwork (sess (snd (checkNetworkAttempt eth maxRetries i w))) =
            (if i + 1 = maxRetries then False else isCorrectNetwork (sess w))
        \<and> networkCheckAttempts (snd (checkNetworkAttempt eth maxRetries i w)) =
            networkCheckAttempts w)
   \<and> (eth_chainId eth (hostCalls w) = Inr cid \<longrightarrow>
        fst (checkNetworkAttempt eth maxRetries i w) = (cid = chainIdHex OG_NETWORK_CONFIG)
        \<and> isCorrectNetwork (sess (snd (checkNetworkAttempt eth maxRetries i w))) =
            (cid = chainIdHex OG_NETWORK_CONFIG)
        \<and> networkCheckAttempts (snd (checkNetworkAttempt eth maxRetries i w)) = i + 1)
   \<and> ((\<forall>j<maxRetries. \<exists>x. eth_chainId eth (hostCalls w + j) = Inl x) \<longrightarrow>
        networkCheckAttempts (checkNetworkWithRetry eth maxRetries w) = networkCheckAttempts w)
   \<and> frame w (checkNetworkWithRetry eth maxRetries w)"
proof -
  have found: "isCorrectNetwork (sess (checkNetworkWithRetry eth maxRetries w))
        \<and> chainReads (trace (checkNetworkWithRetry eth maxRetries w)) =
            chainReads (trace w) @ map (\<lambda>j. replyOf (eth_chainId eth (hostCalls w + j))) [0..<Suc d]
        \<and> now (checkNetworkWithRetry eth maxRetries w) = now w + 1500 * d"
    if a: "d < maxRetries
      \<and> (\<forall>j<d. eth_chainId eth (hostCalls w + j) \<noteq> Inr (chainIdHex OG_NETWORK_CONFIG))
      \<and> eth_chainId eth (hostCalls w + d) = Inr (chainIdHex OG_NETWORK_CONFIG)"
  proof -
    from a have "0 + d < maxRetries" by simp
    from checkNetworkLoop_found [OF _ _ this, of eth w] a show ?thesis
      by (simp add: checkNetworkWithRetry_def)
  qed
  have exhausted: "\<not> isCorrectNetwork (sess (checkNetworkWithRetry eth maxRetries w))
        \<and> chainReads (trace (checkNetworkWithRetry eth maxRetries w)) =
            chainReads (trace w) @ map (\<lambda>j. replyOf (eth_chainId eth (hostCalls w + j))) [0..<maxRetries]
        \<and> now (checkNetworkWithRetry eth maxRetries w) = now w + 1500 * (maxRetries - 1)"
    if b: "0 < maxRetries
      \<and> (\<forall>j<maxRetries. eth_chainId eth (hostCalls w + j) \<noteq> Inr (chainIdHex OG_NETWORK_CONFIG))"
  proof -
    from b obtain k where k: "maxRetries = Suc k" by (cases maxRetries) auto
    then have "maxRetries - 0 = Suc k" by simp
    from checkNetworkLoop_exhausted [OF this, of eth w] b show ?thesis
      by (simp add: checkNetworkWithRetry_def k)
  qed
  have threw: "\<not> fst (checkNetworkAttempt eth maxRetries i w)
        \<and> isCorrectNetwork (sess (snd (checkNetworkAttempt eth maxRetries i w))) =
            (if i + 1 = maxRetries then False else isCorrectNetwork (sess w))
        \<and> networkCheckAttempts (snd (checkNetworkAttempt eth maxRetries i w)) =
            networkCheckAttempts w"
    if "eth_chainId eth (hostCalls w) = Inl e"
    using checkNetworkAttempt_threw [OF that, of maxRetries i] by simp
  have returned: "fst (checkNetworkAttempt eth maxRetries i w) = (cid = chainIdHex OG_NETWORK_CONFIG)
        \<and> isCorrectNetwork (sess (snd (checkNetworkAttempt eth maxRetries i w))) =
            (cid = chainIdHex OG_NETWORK_CONFIG)
        \<and> networkCheckAttempts (snd (checkNetworkAttempt eth maxRetries i w)) = i + 1"
    if "eth_chainId eth (hostCalls w) = Inr cid"
    using checkNetworkAttempt_returned [OF that, of maxRetries i] by simp
  have counter: "networkCheckAttempts (checkNetworkWithRetry eth maxRetries w) = networkCheckAttempts w"
    if "\<forall>j<maxRetries. \<exists>x. eth_chainId eth (hostCalls w + j) = Inl x"
    using checkNetworkLoop_all_threw [of maxRetries 0 maxRetries eth w] that
    by (simp add: checkNetworkWithRetry_def)
  show ?thesis
    using found exhausted threw returned counter checkNetworkWithRetry_frame [of w eth maxRetries]
    by blast
qed

theorem checkNetworkWithRetry_outcome_witness:
  "isCorrectNetwork (sess (checkNetworkWithRetry sample_wallet 3 initial_world))
   \<and> chainReads (trace (checkNetworkWithRetry sample_wallet 3 initial_world)) = [Text ''0x40D9'']
   \<and> \<not> isCorrectNetwork (sess (checkNetworkWithRetry wrong_chain_wallet 3 ready_world))
   \<and> chainReads (trace (checkNetworkWithRetry wrong_chain_wallet 3 ready_world)) =
       [Text ''0x1'', Text ''0x1'', Text ''0x1'']
   \<and> now (checkNetworkWithRetry wrong_chain_wallet 3 ready_world) = 3000
   \<and> isCorrectNetwork (sess (snd (checkNetworkAttempt throwing_wallet 3 0 ready_world)))
   \<and> \<not> isCorrectNetwork (sess (snd (checkNetworkAttempt throwing_wallet 3 2 ready_world)))
   \<and> \<not> isCorrectNetwork (sess (snd (checkNetworkAttempt wrong_chain_wallet 3 0 ready_world)))
   \<and> networkCheckAttempts (checkNetworkWithRetry throwing_wallet 3 wrong_network_world) =
       networkCheckAttempts wrong_network_world"
proof -
  have e: "[0..<Suc 0] = [0]" "[0..<3] = [0, 1, 2]"
    by (simp_all add: upt_rec)
  have r: "chainReads (trace initial_world) = []" "chainReads (trace ready_world) = []"
    "now ready_world = 0" "isCorrectNetwork (sess ready_world)"
    by (simp_all add: samples setters chainReads_def)
  have t: "eth_chainId throwing_wallet n =
             Inl \<lparr>code = Some (-32603), message = Some ''Internal error''\<rparr>"
    and u: "eth_chainId wrong_chain_wallet n = Inr ''0x1''"
    and v: "eth_chainId sample_wallet n = Inr ''0x40D9''" for n
    by (simp_all add: sample_wallet_def wallets)
  show ?thesis
    using checkNetworkWithRetry_outcome
            [where d = 0 and maxRetries = 3 and eth = sample_wallet and w = initial_world
               and i = 0 and cid = "''0x40D9''"]
          checkNetworkWithRetry_outcome
            [where d = 0 and maxRetries = 3 and eth = wrong_chain_wallet and w = ready_world
               and i = 0 and cid = "''0x1''"]
          checkNetworkWithRetry_outcome
            [where maxRetries = 3 and eth = throwing_wallet and w = ready_world and i = 0
               and e = "\<lparr>code = Some (-32603), message = Some ''Internal error''\<rparr>"]
          checkNetworkWithRetry_outcome
            [where maxRetries = 3 and eth = throwing_wallet and w = ready_world and i = 2
               and e = "\<lparr>code = Some (-32603), message = Some ''Internal error''\<rparr>"]
          checkNetworkWithRetry_outcome
            [where maxRetries = 3 and eth = throwing_wallet and w = wrong_network_world]
    by (simp add: e r t u v OG_NETWORK_CONFIG_def replyOf_def)
qed

text \<open>
  Against C2 as stated: after three reads that all threw, the session is the session
  after three reads that all returned another chain, from the initial state and from
  \<open>wrong_network_world\<close>; from the latter the attempt counter is the same too, so
  that nothing the provider keeps tells the two runs apart. And a session that was on the
  right network does not keep its status when every read throws: it becomes false.
\<close>

theorem checkNetworkWithRetry_no_third_state:
  "sess (checkNetworkWithRetry throwing_wallet 3 initial_world) =
     sess (checkNetworkWithRetry wrong_chain_wallet 3 initial_world)
   \<and> sess (checkNetworkWithRetry throwing_wallet 3 wrong_network_world) =
     sess (checkNetworkWithRetry wrong_chain_wallet 3 wrong_network_world)
   \<and> networkCheckAttempts (checkNetworkWithRetry throwing_wallet 3 wrong_network_world) =
     networkCheckAttempts (checkNetworkWithRetry wrong_chain_wallet 3 wrong_network_world)
   \<and> chainReads (trace (checkNetworkWithRetry throwing_wallet 3 initial_world)) =
       [Threw \<lparr>code = Some (-32603), message = Some ''Internal error''\<rparr>,
        Threw \<lparr>code = Some (-32603), message = Some ''Internal error''\<rparr>,
        Threw \<lparr>code = Some (-32603), message = Some ''Internal error''\<rparr>]
   \<and> isCorrectNetwork (sess ready_world)
   \<and> \<not> isCorrectNetwork (sess (checkNetworkWithRetry throwing_wallet 3 ready_world))"
  by (simp add: checkNetworkWithRetry_def checkNetworkLoop_unfold wallets samples setters
        OG_NETWORK_CONFIG_def chainReads_def)

lemmas wallets2 =
  unknown_chain_wallet_def stubborn_wallet_def refusing_wallet_def rejecting_wallet_def
  failing_wallet_def

subsection \<open>switchNetwork\<close>

text \<open>
  C4, as the code has it. When the switch request fails with code 4902, exactly one
  add-chain request is made, carrying \<open>OG_NETWORK_CONFIG\<close>. If the wallet accepts it,
  \<open>switchNetwork\<close> succeeds and a network check of three attempts is scheduled 1000 ms
  later; if the wallet rejects it, that error is thrown on and nothing is scheduled. When
  the switch request fails with any other error, that error is thrown on after the
  "Network Switch Failed" toast, with no add-chain request and nothing scheduled. The
  session is the same in every case.
\<close>

theorem switchNetwork_failure_paths:
  "switchNetwork eth w = (r, w')
   \<and> wallet_switchEthereumChain eth (hostCalls w) (chainIdHex OG_NETWORK_CONFIG) = Inl e \<longrightarrow>
     sess w' = sess w
     \<and> (code e = Some 4902 \<longrightarrow>
          addChainRequests (trace w') = addChainRequests (trace w) @ [OG_NETWORK_CONFIG]
          \<and> (case wallet_addEthereumChain eth (hostCalls w + 1) OG_NETWORK_CONFIG of
                Inr u \<Rightarrow> r = Inr () \<and> timers w' = timers w @ [(now w + 1000, CheckNetwork 3)]
              | Inl e' \<Rightarrow> r = Inl (Rethrown e') \<and> timers w' = timers w))
     \<and> (code e \<noteq> Some 4902 \<longrightarrow>
          r = Inl (Rethrown e)
          \<and> addChainRequests (trace w') = addChainRequests (trace w)
          \<and> timers w' = timers w
          \<and> toasts (trace w') = toasts (trace w) @ [NetworkSwitchFailed])"
  by (auto simp add: switchNetwork_def addNetwork_def Let_def setters addChainRequests_def
        toasts_def split: sum.splits)

theorem switchNetwork_failure_paths_witness:
  "fst (switchNetwork unknown_chain_wallet ready_world) = Inr ()
   \<and> addChainRequests (trace (snd (switchNetwork unknown_chain_wallet ready_world))) =
       [OG_NETWORK_CONFIG]
   \<and> timers (snd (switchNetwork unknown_chain_wallet ready_world)) = [(1000, CheckNetwork 3)]
   \<and> fst (switchNetwork refusing_wallet ready_world) =
       Inl (Rethrown \<lparr>code = Some 4001, message = Some ''User rejected the request.''\<rparr>)
   \<and> sess (snd (switchNetwork refusing_wallet ready_world)) = sess ready_world
   \<and> addChainRequests (trace (snd (switchNetwork refusing_wallet ready_world))) = []"
proof -
  have a: "wallet_switchEthereumChain unknown_chain_wallet (hostCalls ready_world)
             (chainIdHex OG_NETWORK_CONFIG) =
           Inl \<lparr>code = Some 4902, message = Some ''Unrecognized chain ID''\<rparr>"
    and b: "wallet_switchEthereumChain refusing_wallet (hostCalls ready_world)
             (chainIdHex OG_NETWORK_CONFIG) =
           Inl \<lparr>code = Some 4001, message = Some ''User rejected the request.''\<rparr>"
    and c: "wallet_addEthereumChain unknown_chain_wallet (hostCalls ready_world + 1)
             OG_NETWORK_CONFIG = Inr ()"
    and d: "addChainRequests (trace ready_world) = []" "timers ready_world = []"
      "now ready_world = 0"
    by (simp_all add: wallets2 samples setters addChainRequests_def)
  show ?thesis
    using switchNetwork_failure_paths
            [of unknown_chain_wallet ready_world
                "fst (switchNetwork unknown_chain_wallet ready_world)"
                "snd (switchNetwork unknown_chain_wallet ready_world)"
                "\<lparr>code = Some 4902, message = Some ''Unrecognized chain ID''\<rparr>"]
          switchNetwork_failure_paths
            [of refusing_wallet ready_world
                "fst (switchNetwork refusing_wallet ready_world)"
                "snd (switchNetwork refusing_wallet ready_world)"
                "\<lparr>code = Some 4001, message = Some ''User rejected the request.''\<rparr>"]
          a b c d
    by simp
qed

text \<open>
  Against C4 as stated: the wallet does not know the chain and the user rejects the
  add-chain request. One add-chain request was made, no network check follows it, and
  the call fails with the error of the add-chain request.
\<close>

theorem switchNetwork_add_rejected_no_recheck:
  "wallet_switchEthereumChain stubborn_wallet (hostCalls ready_world) (chainIdHex OG_NETWORK_CONFIG) =
     Inl \<lparr>code = Some 4902, message = Some ''Unrecognized chain ID''\<rparr>
   \<and> addChainRequests (trace (snd (switchNetwork stubborn_wallet ready_world))) = [OG_NETWORK_CONFIG]
   \<and> timers (snd (switchNetwork stubborn_wallet ready_world)) = []
   \<and> chainReads (trace (snd (switchNetwork stubborn_wallet ready_world))) = []
   \<and> fst (switchNetwork stubborn_wallet ready_world) =
       Inl (Rethrown \<lparr>code = Some 4001, message = Some ''User rejected the request.''\<rparr>)"
  by (simp add: switchNetwork_def addNetwork_def Let_def wallets2 samples setters
        addChainRequests_def chainReads_def)

subsection \<open>connectWallet\<close>

text \<open>
  C5, as the code has it. \<open>connectWallet\<close> never rejects: every path fulfils the
  promise, and a failure is shown as a toast. With no wallet the toast is "MetaMask Not
  Found" and neither session nor storage changes. When the account request throws, the
  toast is "Connection Rejected" for code 4001 and "Connection Failed" (with the
  wallet's message, or a default text) otherwise, and connected, address and storage
  stay as they were. When it returns, connected is true, the address is the first
  account, the balance is the one the wallet reports (the old one if that request
  throws), both storage entries are written, a network check of three attempts is
  scheduled 1000 ms later and the toast is "Wallet Connected".
\<close>

theorem connectWallet_outcomes:
  "connectWallet ethereum w = (r, w') \<longrightarrow>
     r = Inr ()
     \<and> (ethereum = None \<longrightarrow>
          sess w' = sess w \<and> localStorage w' = localStorage w \<and> timers w' = timers w
          \<and> toasts (trace w') = toasts (trace w) @ [MetaMaskNotFound])
     \<and> (\<forall>eth e. ethereum = Some eth \<and> eth_requestAccounts eth (hostCalls w) = Inl e \<longrightarrow>
          isConnected (sess w') = isConnected (sess w)
          \<and> address (sess w') = address (sess w)
          \<and> localStorage w' = localStorage w
          \<and> timers w' = timers w
          \<and> toasts (trace w') = toasts (trace w) @
               [if code e = Some 4001 then ConnectionRejected
                else ConnectionFailed
                       (orElse (message e) ''Failed to connect wallet. Please try again.'')])
     \<and> (\<forall>eth accounts. ethereum = Some eth
            \<and> eth_requestAccounts eth (hostCalls w) = Inr accounts \<longrightarrow>
          isConnected (sess w')
          \<and> address (sess w') = first_account accounts
          \<and> balance (sess w') =
              (case eth_getBalance eth (hostCalls w + 1) (first_account accounts) of
                 Inr b \<Rightarrow> BalanceInOG b | Inl e \<Rightarrow> balance (sess w))
          \<and> localStorage w' =
              (localStorage w)(''walletConnected'' \<mapsto> ''true'',
                               ''walletAddress'' \<mapsto> toStr (first_account accounts))
          \<and> timers w' = timers w @ [(now w + 1000, CheckNetwork 3)]
          \<and> toasts (trace w') = toasts (trace w) @ [WalletConnected])"
  by (auto simp add: connectWallet_def getBalance_def Let_def setters toasts_def
        split: option.splits sum.splits)

theorem connectWallet_outcomes_witness:
  "fst (connectWallet None initial_world) = Inr ()
   \<and> toasts (trace (snd (connectWallet None initial_world))) = [MetaMaskNotFound]
   \<and> toasts (trace (snd (connectWallet (Some rejecting_wallet) initial_world))) = [ConnectionRejected]
   \<and> toasts (trace (snd (connectWallet (Some failing_wallet) initial_world))) =
       [ConnectionFailed ''Failed to connect wallet. Please try again.'']
   \<and> isConnected (sess (snd (connectWallet (Some sample_wallet) initial_world)))
   \<and> address (sess (snd (connectWallet (Some sample_wallet) initial_world))) = Some sample_account
   \<and> balance (sess (snd (connectWallet (Some sample_wallet) initial_world))) =
       BalanceInOG ''0xde0b6b3a7640000''
   \<and> timers (snd (connectWallet (Some sample_wallet) initial_world)) = [(1000, CheckNetwork 3)]"
proof -
  have a: "eth_requestAccounts rejecting_wallet (hostCalls initial_world) =
             Inl \<lparr>code = Some 4001, message = Some ''User rejected the request.''\<rparr>"
    and b: "eth_requestAccounts failing_wallet (hostCalls initial_world) =
             Inl \<lparr>code = Some (-32002), message = None\<rparr>"
    and c: "eth_requestAccounts sample_wallet (hostCalls initial_world) = Inr [sample_account]"
    and d: "eth_getBalance sample_wallet (hostCalls initial_world + 1)
              (first_account [sample_account]) = Inr ''0xde0b6b3a7640000''"
    and e: "toasts (trace initial_world) = []" "timers initial_world = []" "now initial_world = 0"
    by (simp_all add: wallets2 samples toasts_def)
  show ?thesis
    using connectWallet_outcomes
            [of None initial_world "fst (connectWallet None initial_world)"
                "snd (connectWallet None initial_world)"]
          connectWallet_outcomes
            [of "Some rejecting_wallet" initial_world
                "fst (connectWallet (Some rejecting_wallet) initial_world)"
                "snd (connectWallet (Some rejecting_wallet) initial_world)"]
          connectWallet_outcomes
            [of "Some failing_wallet" initial_world
                "fst (connectWallet (Some failing_wallet) initial_world)"
                "snd (connectWallet (Some failing_wallet) initial_world)"]
          connectWallet_outcomes
            [of "Some sample_wallet" initial_world
                "fst (connectWallet (Some sample_wallet) initial_world)"
                "snd (connectWallet (Some sample_wallet) initial_world)"]
          a b c d e
    by (simp add: orElse_def first_account_def)
qed

text \<open>
  Against C5 as stated: with no wallet, with a rejected prompt and with any other
  failure of the account request, the promise of \<open>connectWallet\<close> is fulfilled; the
  caller receives no error of any kind.
\<close>

theorem connectWallet_never_rejects:
  "fst (connectWallet None initial_world) = Inr ()
   \<and> fst (connectWallet (Some rejecting_wallet) initial_world) = Inr ()
   \<and> fst (connectWallet (Some failing_wallet) initial_world) = Inr ()"
  by (simp add: connectWallet_def Let_def wallets2 samples)

subsection \<open>The cooldown of the network toast\<close>

lemmas effects =
  toasts_def networkToasts_def isNetworkToast_def addChainRequests_def submitted_def
  chainReads_def resetTimers_def

lemma quiet_refl: "quiet w w"
  by (simp add: quiet_def)

lemma quiet_trans: "quiet w w1 \<Longrightarrow> quiet w1 w2 \<Longrightarrow> quiet w w2"
  by (simp add: quiet_def)

lemma frame_quiet: "frame w w' \<Longrightarrow> quiet w w'"
  by (simp add: frame_def quiet_def resetTimers_def)

lemma quiet_getBalance: "quiet w (getBalance eth a w)"
  by (simp add: quiet_def getBalance_def setters effects split: sum.splits)

lemma quiet_disconnectWallet: "quiet w (disconnectWallet w)"
  by (simp add: quiet_def disconnectWallet_def setters effects)

lemma quiet_connectWallet: "quiet w (snd (connectWallet ethereum w))"
  by (simp add: quiet_def connectWallet_def getBalance_def Let_def setters effects
        split: option.splits sum.splits)

lemma quiet_switchNetwork: "quiet w (snd (switchNetwork eth w))"
  by (simp add: quiet_def switchNetwork_def addNetwork_def Let_def setters effects
        split: sum.splits)

lemma quiet_sendTransaction: "quiet w (snd (sendTransaction eth to v d w))"
  by (simp add: quiet_def sendTransaction_def Let_def setters effects split: sum.splits)

lemma quiet_handleAccountsChanged: "quiet w (handleAccountsChanged eth accounts w)"
  by (simp add: quiet_def handleAccountsChanged_def disconnectWallet_def getBalance_def Let_def
        setters effects split: sum.splits)

lemma quiet_handleConnect: "quiet w (handleConnect w)"
  by (simp add: quiet_def handleConnect_def setters effects)

lemma quiet_pollTick: "quiet w (pollTick snap ethereum w)"
  by (simp add: quiet_def pollTick_def getBalance_def Let_def setters effects
        split: option.splits sum.splits)

lemma quiet_initializeWallet: "quiet w (initializeWallet ethereum w)"
proof (cases ethereum)
  case None
  then show ?thesis by (simp add: initializeWallet_def quiet_refl)
next
  case (Some eth)
  have flag: "quiet x (x\<lparr>isInitialized := True\<rparr>)" for x
    by (simp add: quiet_def effects)
  have log: "quiet w (logRequest EthAccounts a w)" for a
    by (simp add: quiet_def setters effects)
  have conn: "quiet x (getBalance eth a (setAddress a (setIsConnected True x)))" for x a
    by (simp add: quiet_def getBalance_def setters effects split: sum.splits)
  have check: "quiet x (checkNetworkWithRetry eth n x)" for x n
    by (rule frame_quiet [OF checkNetworkWithRetry_frame])
  show ?thesis
  proof (cases "eth_accounts eth (hostCalls w)")
    case (Inl e)
    then show ?thesis
      using quiet_trans [OF log flag] by (simp add: initializeWallet_def Some)
  next
    case (Inr accounts)
    show ?thesis
      using quiet_trans [OF quiet_trans [OF quiet_trans [OF log conn] check] flag]
            quiet_trans [OF quiet_trans [OF log check] flag]
      by (simp add: initializeWallet_def Some Inr Let_def)
  qed
qed

lemma cooldown_quiet: "cooldown w \<Longrightarrow> quiet w w' \<Longrightarrow> cooldown w'"
  unfolding cooldown_def quiet_def by (auto intro: le_trans)

lemma cooldown_handleChainChanged:
  assumes "cooldown w"
  shows "cooldown (handleChainChanged snap cid w)"
proof (cases "isConnected snap \<and> isInitialized w \<and> \<not> hasShownNetworkWarning w")
  case False
  then have "quiet w (handleChainChanged snap cid w)"
    by (auto simp add: quiet_def handleChainChanged_def Let_def setters effects)
  with assms show ?thesis by (rule cooldown_quiet)
next
  case True
  then have flag: "\<not> hasShownNetworkWarning w" by simp
  with assms have none: "resetTimers w = {#}"
    and old: "\<forall>t \<in> set (networkToasts (trace w)). t + 5000 \<le> now w"
    and sp: "sorted_wrt (\<lambda>t u. t + 5000 \<le> u) (networkToasts (trace w))"
    by (simp_all add: cooldown_def)
  have a: "networkToasts (trace (handleChainChanged snap cid w)) = networkToasts (trace w) @ [now w]"
    and b: "resetTimers (handleChainChanged snap cid w) = {#(now w + 5000, ResetNetworkWarning)#}"
    and c: "now (handleChainChanged snap cid w) = now w"
    and d: "hasShownNetworkWarning (handleChainChanged snap cid w)"
    using True none
    by (simp_all add: handleChainChanged_def Let_def setters networkToasts_def isNetworkToast_def
          resetTimers_def)
  have older: "\<forall>t \<in> set (networkToasts (trace w)). t \<le> now w"
    using old by auto
  show ?thesis
    unfolding cooldown_def a b c
    using sp old older d by (simp add: sorted_wrt_append)
qed

lemma cooldown_step: "cooldown w \<Longrightarrow> cooldown (step eth a w)"
proof (cases a)
  case (ChainChanged snap cid)
  assume "cooldown w"
  then show ?thesis by (simp add: ChainChanged cooldown_handleChainChanged)
qed (auto intro: cooldown_quiet quiet_initializeWallet quiet_connectWallet quiet_disconnectWallet
       quiet_switchNetwork quiet_sendTransaction quiet_handleAccountsChanged quiet_handleConnect
       quiet_pollTick simp: handleDisconnect_def)

text \<open>
  The callbacks that are due: \<open>L\<close> is what is still to run, and the invariant is
  stated with \<open>L\<close> put back among the pending timers.
\<close>

lemma cooldown_runTasks:
  assumes "cooldown (w\<lparr>timers := timers w @ L\<rparr>)"
    and "\<forall>p \<in> set L. fst p \<le> now w"
  shows "cooldown (fold (\<lambda>p. runTask eth (snd p)) L w)"
  using assms
proof (induction L arbitrary: w)
  case Nil
  then show ?case by simp
next
  case (Cons p L)
  obtain d k where p: "p = (d, k)" by (cases p)
  have due: "d \<le> now w" using Cons.prems(2) by (simp add: p)
  show ?case
  proof (cases k)
    case (CheckNetwork n)
    define w' where "w' = checkNetworkWithRetry eth n w"
    have fr: "frame w w'" unfolding w'_def by (rule checkNetworkWithRetry_frame)
    have "quiet (w\<lparr>timers := timers w @ p # L\<rparr>) (w'\<lparr>timers := timers w' @ L\<rparr>)"
      using fr by (simp add: frame_def quiet_def resetTimers_def p CheckNetwork)
    with Cons.prems(1) have inv: "cooldown (w'\<lparr>timers := timers w' @ L\<rparr>)"
      by (rule cooldown_quiet)
    have "\<forall>q \<in> set L. fst q \<le> now w'"
      using Cons.prems(2) fr by (auto simp add: frame_def intro: le_trans)
    from Cons.IH [OF inv this] show ?thesis
      by (simp add: p CheckNetwork runTask_def w'_def)
  next
    case ResetNetworkWarning
    define w' where "w' = w\<lparr>hasShownNetworkWarning := False\<rparr>"
    from Cons.prems(1) have one: "size (resetTimers (w\<lparr>timers := timers w @ p # L\<rparr>)) \<le> 1"
      and far: "\<forall>t \<in> set (networkToasts (trace w)). t + 5000 \<le> d"
      and sp: "sorted_wrt (\<lambda>t u. t + 5000 \<le> u) (networkToasts (trace w))"
      and le: "\<forall>t \<in> set (networkToasts (trace w)). t \<le> now w"
      by (simp_all add: cooldown_def resetTimers_def p ResetNetworkWarning)
    from one have rt: "resetTimers (w'\<lparr>timers := timers w' @ L\<rparr>) = {#}"
      by (simp add: resetTimers_def p ResetNetworkWarning w'_def)
    have nt: "networkToasts (trace (w'\<lparr>timers := timers w' @ L\<rparr>)) = networkToasts (trace w)"
      "now (w'\<lparr>timers := timers w' @ L\<rparr>) = now w"
      by (simp_all add: w'_def)
    have old: "\<forall>t \<in> set (networkToasts (trace w)). t + 5000 \<le> now w"
      using far due le_trans by blast
    have inv: "cooldown (w'\<lparr>timers := timers w' @ L\<rparr>)"
      unfolding cooldown_def rt nt
      using sp le old by simp
    have "\<forall>q \<in> set L. fst q \<le> now w'"
      using Cons.prems(2) by (simp add: w'_def)
    from Cons.IH [OF inv this] show ?thesis
      by (simp add: p ResetNetworkWarning runTask_def w'_def)
  qed
qed

lemma cooldown_advance: "cooldown w \<Longrightarrow> cooldown (advance eth t w)"
proof -
  assume inv: "cooldown w"
  define w1 where "w1 = w\<lparr>now := max (now w) t\<rparr>"
  define due where "due = filter (\<lambda>p. fst p \<le> now w1) (timers w1)"
  define w2 where "w2 = w1\<lparr>timers := filter (\<lambda>p. \<not> fst p \<le> now w1) (timers w1)\<rparr>"
  have "quiet w (w2\<lparr>timers := timers w2 @ sort_key fst due\<rparr>)"
    by (simp add: quiet_def w2_def w1_def due_def resetTimers_def filter_mset_eq_conv
          multiset_partition [symmetric] del: filter_mset_add_mset)
  with inv have a: "cooldown (w2\<lparr>timers := timers w2 @ sort_key fst due\<rparr>)"
    by (rule cooldown_quiet)
  have b: "\<forall>p \<in> set (sort_key fst due). fst p \<le> now w2"
    by (simp add: due_def w2_def)
  have "advance eth t w = fold (\<lambda>p. runTask eth (snd p)) (sort_key fst due) w2"
    by (simp add: advance_def Let_def w1_def due_def w2_def)
  with cooldown_runTasks [OF a b] show ?thesis by simp
qed

lemma cooldown_run: "cooldown w \<Longrightarrow> cooldown (run eth evs w)"
proof (induction evs arbitrary: w)
  case Nil
  then show ?case by simp
next
  case (Cons ev evs)
  obtain t a where ev: "ev = (t, a)" by (cases ev)
  from Cons.prems have "cooldown (step eth a (advance eth t w))"
    by (intro cooldown_step cooldown_advance)
  then show ?case
    by (simp add: ev Cons.IH)
qed

lemma cooldown_initial: "cooldown initial_world"
  by (simp add: cooldown_def initial_world_def networkToasts_def resetTimers_def)

text \<open>
  C8. In every run from the initial state, for every wallet, every sequence of timed
  actions (chain-change events, poll ticks and all other operations) and every render
  the handlers were created in, two toasts of \<open>handleChainChanged\<close> are at least
  5000 ms apart: no window of less than 5000 ms holds two of them, however many signals
  arrive in it. A poll tick shows no toast at all.
\<close>

theorem network_toast_cooldown:
  "sorted_wrt (\<lambda>t u. t + 5000 \<le> u) (networkToasts (trace (run eth evs initial_world)))"
  using cooldown_run [OF cooldown_initial, of eth evs] by (simp add: cooldown_def)

lemma busy_run_toasts: "networkToasts (trace (run sample_wallet busy_run initial_world)) = [10, 5010]"
  by (simp add: busy_run_def connected_session_def advance_def runTask_def
        initializeWallet_def handleChainChanged_def pollTick_def getBalance_def truthy_def
        first_account_def checkNetworkWithRetry_def checkNetworkLoop_unfold Let_def
        samples setters OG_NETWORK_CONFIG_def networkToasts_def isNetworkToast_def)

theorem network_toast_cooldown_witness:
  "networkToasts (trace (run sample_wallet busy_run initial_world)) = [10, 5010]
   \<and> sorted_wrt (\<lambda>t u. t + 5000 \<le> u) (networkToasts (trace (run sample_wallet busy_run initial_world)))"
  using network_toast_cooldown [of sample_wallet busy_run] busy_run_toasts by simp

subsection \<open>Invariants of the session\<close>

lemma runTask_session:
  "isConnected (sess (runTask eth k w)) = isConnected (sess w)
   \<and> address (sess (runTask eth k w)) = address (sess w)
   \<and> isLoading (sess (runTask eth k w)) = isLoading (sess w)"
proof (cases k)
  case (CheckNetwork n)
  then show ?thesis
    using checkNetworkWithRetry_frame [of w eth n] by (simp add: runTask_def frame_def)
next
  case ResetNetworkWarning
  then show ?thesis by (simp add: runTask_def)
qed

lemma runTasks_session:
  "isConnected (sess (fold (\<lambda>p. runTask eth (snd p)) L w)) = isConnected (sess w)
   \<and> address (sess (fold (\<lambda>p. runTask eth (snd p)) L w)) = address (sess w)
   \<and> isLoading (sess (fold (\<lambda>p. runTask eth (snd p)) L w)) = isLoading (sess w)"
  by (induction L arbitrary: w) (simp_all add: runTask_session)

lemma advance_session:
  "isConnected (sess (advance eth t w)) = isConnected (sess w)
   \<and> address (sess (advance eth t w)) = address (sess w)
   \<and> isLoading (sess (advance eth t w)) = isLoading (sess w)"
  by (simp add: advance_def Let_def runTasks_session)

lemma initializeWallet_loading:
  "isLoading (sess (initializeWallet ethereum w)) = isLoading (sess w)"
proof -
  have "isLoading (sess (checkNetworkWithRetry eth n x)) = isLoading (sess x)" for eth n x
    using checkNetworkWithRetry_frame [of x eth n] by (simp add: frame_def)
  then show ?thesis
    by (simp add: initializeWallet_def getBalance_def Let_def setters
          split: option.splits sum.splits)
qed

lemma step_loading: "\<not> isLoading (sess w) \<Longrightarrow> \<not> isLoading (sess (step eth a w))"
  by (cases a)
     (simp_all add: initializeWallet_loading connectWallet_def disconnectWallet_def
        switchNetwork_def addNetwork_def sendTransaction_def handleAccountsChanged_def
        handleChainChanged_def handleConnect_def handleDisconnect_def pollTick_def
        getBalance_def Let_def setters split: option.splits sum.splits)

lemma run_loading: "\<not> isLoading (sess w) \<Longrightarrow> \<not> isLoading (sess (run eth evs w))"
proof (induction evs arbitrary: w)
  case Nil
  then show ?case by simp
next
  case (Cons ev evs)
  obtain t a where ev: "ev = (t, a)" by (cases ev)
  from Cons.prems have "\<not> isLoading (sess (step eth a (advance eth t w)))"
    by (intro step_loading) (simp add: advance_session)
  then show ?case by (simp add: ev Cons.IH)
qed

text \<open>
  C9. On every failure path \<open>connectWallet\<close> fulfils its promise with no error.
  Without a wallet the session is returned as it was, so the loading flag is false on
  completion in every state a run can reach; when the account request throws (code 4001
  or any other error), connected, address, balance and correctNetwork are unchanged and
  the loading flag is false.
\<close>

theorem connectWallet_failure_resolves:
  "fst (connectWallet None w) = Inr ()
   \<and> sess (snd (connectWallet None w)) = sess w
   \<and> \<not> isLoading (sess (snd (connectWallet None (run eth0 evs initial_world))))
   \<and> (eth_requestAccounts eth (hostCalls w) = Inl e \<longrightarrow>
        fst (connectWallet (Some eth) w) = Inr ()
        \<and> isConnected (sess (snd (connectWallet (Some eth) w))) = isConnected (sess w)
        \<and> address (sess (snd (connectWallet (Some eth) w))) = address (sess w)
        \<and> balance (sess (snd (connectWallet (Some eth) w))) = balance (sess w)
        \<and> isCorrectNetwork (sess (snd (connectWallet (Some eth) w))) = isCorrectNetwork (sess w)
        \<and> \<not> isLoading (sess (snd (connectWallet (Some eth) w))))"
proof -
  have "\<not> isLoading (sess initial_world)"
    by (simp add: initial_world_def initial_session_def)
  then have "\<not> isLoading (sess (run eth0 evs initial_world))"
    by (rule run_loading)
  then show ?thesis
    by (simp add: connectWallet_def Let_def setters)
qed

theorem connectWallet_failure_resolves_witness:
  "fst (connectWallet (Some rejecting_wallet) ready_world) = Inr ()
   \<and> isConnected (sess (snd (connectWallet (Some rejecting_wallet) ready_world)))
   \<and> address (sess (snd (connectWallet (Some rejecting_wallet) ready_world))) = Some sample_account
   \<and> \<not> isLoading (sess (snd (connectWallet (Some rejecting_wallet) ready_world)))
   \<and> fst (connectWallet (Some failing_wallet) initial_world) = Inr ()
   \<and> \<not> isConnected (sess (snd (connectWallet (Some failing_wallet) initial_world)))"
proof -
  have a: "eth_requestAccounts rejecting_wallet (hostCalls ready_world) =
             Inl \<lparr>code = Some 4001, message = Some ''User rejected the request.''\<rparr>"
    and b: "eth_requestAccounts failing_wallet (hostCalls initial_world) =
             Inl \<lparr>code = Some (-32002), message = None\<rparr>"
    and c: "isConnected (sess ready_world)" "address (sess ready_world) = Some sample_account"
      "\<not> isConnected (sess initial_world)"
    by (simp_all add: wallets2 samples setters)
  show ?thesis
    using connectWallet_failure_resolves
            [of ready_world sample_wallet "[]" rejecting_wallet
                "\<lparr>code = Some 4001, message = Some ''User rejected the request.''\<rparr>"]
          connectWallet_failure_resolves
            [of initial_world sample_wallet "[]" failing_wallet
                "\<lparr>code = Some (-32002), message = None\<rparr>"]
          a b c
    by simp
qed

















end
